theory Spec2Isabelle
  imports Main "HOL-Library.AList"
begin

section \<open>Python values\<close>

text \<open>
  The parser of \<^verbatim>\<open>src/Models/parser.py\<close> builds its syntax tree out of plain Python
  dictionaries, lists, strings and numbers, and every operation of the class dispatches on
  the keys present in a dictionary. The tree is therefore modelled as the values Python
  has: a dictionary is an association list in insertion order (the order \<^verbatim>\<open>items()\<close>
  iterates in), with string keys only. A float is identified by its \<^verbatim>\<open>repr\<close>, which is
  all the parser ever does with one. Strings are lists of 8-bit characters.
\<close>

datatype pyval =
    PyNone
  | PyBool bool
  | PyInt int
  | PyFloat string
  | PyStr string
  | PyList "pyval list"
  | PyDict "(string \<times> pyval) list"

text \<open>
  The exceptions the code can raise. \<open>RecursionError\<close> is what Python raises when the
  call stack is exhausted; the recursive functions below whose recursion is not structural
  take the remaining stack depth as an argument.
\<close>

datatype error =
    ValueError string
  | TypeError
  | KeyError string
  | AttributeError
  | RuntimeError
  | RecursionError
  | InvalidReference string

fun is_substring :: "string \<Rightarrow> string \<Rightarrow> bool" where
  "is_substring k [] = (k = [])"
| "is_substring k (c # cs) = (take (length k) (c # cs) = k \<or> is_substring k cs)"

text \<open>\<^verbatim>\<open>k in v\<close> for a string \<open>k\<close>: a key of a dictionary, an element of a list, a
  substring of a string; any other right operand is not iterable.\<close>

fun py_in :: "string \<Rightarrow> pyval \<Rightarrow> error + bool" where
  "py_in k (PyDict kvs) = Inr (k \<in> set (map fst kvs))"
| "py_in k (PyList xs) = Inr (PyStr k \<in> set xs)"
| "py_in k (PyStr s) = Inr (is_substring k s)"
| "py_in k v = Inl TypeError"

text \<open>\<^verbatim>\<open>v[k]\<close> for a string \<open>k\<close>.\<close>

fun py_getitem :: "pyval \<Rightarrow> string \<Rightarrow> error + pyval" where
  "py_getitem (PyDict kvs) k = (case map_of kvs k of None \<Rightarrow> Inl (KeyError k) | Some v \<Rightarrow> Inr v)"
| "py_getitem v k = Inl TypeError"

text \<open>\<^verbatim>\<open>v[k] = x\<close> for a string \<open>k\<close>: an existing key keeps its place, a new one is
  appended.\<close>

fun py_setitem :: "pyval \<Rightarrow> string \<Rightarrow> pyval \<Rightarrow> error + pyval" where
  "py_setitem (PyDict kvs) k x = Inr (PyDict (AList.update k x kvs))"
| "py_setitem v k x = Inl TypeError"

text \<open>The elements \<^verbatim>\<open>for x in v\<close> runs over.\<close>

fun py_iter :: "pyval \<Rightarrow> error + pyval list" where
  "py_iter (PyList xs) = Inr xs"
| "py_iter (PyStr s) = Inr (map (\<lambda>c. PyStr [c]) s)"
| "py_iter (PyDict kvs) = Inr (map (\<lambda>kv. PyStr (fst kv)) kvs)"
| "py_iter v = Inl TypeError"

text \<open>Truthiness, as \<^verbatim>\<open>not v\<close> and \<^verbatim>\<open>if v\<close> read it.\<close>

fun py_bool :: "pyval \<Rightarrow> bool" where
  "py_bool PyNone = False"
| "py_bool (PyBool b) = b"
| "py_bool (PyInt i) = (i \<noteq> 0)"
| "py_bool (PyFloat s) = (s \<noteq> ''0.0'' \<and> s \<noteq> ''-0.0'')"
| "py_bool (PyStr s) = (s \<noteq> [])"
| "py_bool (PyList xs) = (xs \<noteq> [])"
| "py_bool (PyDict kvs) = (kvs \<noteq> [])"

fun isinstance_dict :: "pyval \<Rightarrow> bool" where
  "isinstance_dict (PyDict kvs) = True"
| "isinstance_dict v = False"

fun isinstance_list :: "pyval \<Rightarrow> bool" where
  "isinstance_list (PyList xs) = True"
| "isinstance_list v = False"

fun join :: "string \<Rightarrow> string list \<Rightarrow> string" where
  "join sep [] = []"
| "join sep [x] = x"
| "join sep (x # y # ys) = x @ sep @ join sep (y # ys)"

fun str_nat :: "nat \<Rightarrow> string" where
  "str_nat n =
     (if n < 10 then [''0123456789'' ! n]
      else str_nat (n div 10) @ [''0123456789'' ! (n mod 10)])"

declare str_nat.simps [simp del]

definition str_int :: "int \<Rightarrow> string" where
  "str_int i = (if i < 0 then CHR ''-'' # str_nat (nat (- i)) else str_nat (nat i))"

text \<open>\<^verbatim>\<open>repr\<close> of a string: single quotes unless the string holds a single quote and no
  double quote; the quote and the backslash are escaped, and so is every character that
  Python does not count as printable: below code point 256 these are the control
  characters (0x00 to 0x1F and 0x7F to 0x9F), the no-break space 0xA0 and the soft hyphen
  0xAD.\<close>

definition hex_digit :: "nat \<Rightarrow> char" where
  "hex_digit n = ''0123456789abcdef'' ! n"

definition repr_char :: "char \<Rightarrow> char \<Rightarrow> string" where
  "repr_char q c =
     (if c = q \<or> c = CHR 0x5C then [CHR 0x5C, c]
      else if c = CHR 0x0A then [CHR 0x5C, CHR ''n'']
      else if c = CHR 0x0D then [CHR 0x5C, CHR ''r'']
      else if c = CHR 0x09 then [CHR 0x5C, CHR ''t'']
      else if of_char c < (32::nat) \<or> ((127::nat) \<le> of_char c \<and> of_char c \<le> (160::nat)) \<or>
              of_char c = (173::nat)
        then [CHR 0x5C, CHR ''x'', hex_digit (of_char c div 16), hex_digit (of_char c mod 16)]
      else [c])"

definition repr_str :: "string \<Rightarrow> string" where
  "repr_str s =
     (let q = (if CHR 0x27 \<in> set s \<and> CHR 0x22 \<notin> set s then CHR 0x22 else CHR 0x27)
      in q # concat (map (repr_char q) s) @ [q])"

fun py_repr :: "pyval \<Rightarrow> string" where
  "py_repr PyNone = ''None''"
| "py_repr (PyBool b) = (if b then ''True'' else ''False'')"
| "py_repr (PyInt i) = str_int i"
| "py_repr (PyFloat s) = s"
| "py_repr (PyStr s) = repr_str s"
| "py_repr (PyList xs) = ''['' @ join '', '' (map py_repr xs) @ '']''"
| "py_repr (PyDict kvs) =
     ''{'' @ join '', '' (map (\<lambda>kv. repr_str (fst kv) @ '': '' @ py_repr (snd kv)) kvs) @ ''}''"

text \<open>\<^verbatim>\<open>str(v)\<close>, which is also how an f-string formats \<open>v\<close>.\<close>

fun py_str :: "pyval \<Rightarrow> string" where
  "py_str (PyStr s) = s"
| "py_str v = py_repr v"

text \<open>Results of a sequence of calls, in order: the first exception ends it.\<close>

primrec collect :: "(error + 'a) list \<Rightarrow> error + 'a list" where
  "collect [] = Inr []"
| "collect (x # xs) =
     (case x of
        Inl e \<Rightarrow> Inl e
      | Inr v \<Rightarrow> (case collect xs of Inl e \<Rightarrow> Inl e | Inr vs \<Rightarrow> Inr (v # vs)))"

fun str_value :: "pyval \<Rightarrow> string option" where
  "str_value (PyStr s) = Some s"
| "str_value v = None"

text \<open>\<^verbatim>\<open>sep.join(vs)\<close>: every element has to be a string.\<close>

definition py_join :: "string \<Rightarrow> pyval list \<Rightarrow> error + string" where
  "py_join sep vs =
     (case those (map str_value vs) of None \<Rightarrow> Inl TypeError | Some ss \<Rightarrow> Inr (join sep ss))"

text \<open>\<^verbatim>\<open>str.strip()\<close>: the whitespace characters of Python below code point 256.\<close>

definition py_isspace :: "char \<Rightarrow> bool" where
  "py_isspace c \<longleftrightarrow>
     c \<in> set [CHR 0x20, CHR 0x09, CHR 0x0A, CHR 0x0B, CHR 0x0C, CHR 0x0D,
               CHR 0x1C, CHR 0x1D, CHR 0x1E, CHR 0x1F, CHR 0x85, CHR 0xA0]"

definition strip :: "string \<Rightarrow> string" where
  "strip s = rev (dropWhile py_isspace (rev (dropWhile py_isspace s)))"

section \<open>The Reference class\<close>

text \<open>
  Modelled from the spec: the class \<^verbatim>\<open>Reference\<close> of \<^verbatim>\<open>Models/reference.py\<close>, which is
  not among the sources. A Reference has the four fields the data model lists (an optional
  sheet name, the column letters, the row number and the column number), its structured
  form has the shape of the dictionaries written out at the end of \<^verbatim>\<open>parser.py\<close>, its
  string form is \<^verbatim>\<open>'sheet'!\<close> (when there is a sheet name) followed by the column letters
  and the row number, \<^verbatim>\<open>from_dict\<close> reads the four fields back, and updating the column
  number changes the number and the letters together. Column letters are bijective base 26
  (A = 1, ..., Z = 26, AA = 27); the spec defines the conversion for positive numbers, and a
  number below 1 has no letters here.
\<close>

record reference =
  sheet_name :: "string option"
  column_letter :: string
  row_number :: int
  column_number :: int

fun number_to_letters :: "int \<Rightarrow> string" where
  "number_to_letters n =
     (if n \<le> 0 then []
      else number_to_letters ((n - 1) div 26) @
           [''ABCDEFGHIJKLMNOPQRSTUVWXYZ'' ! nat ((n - 1) mod 26)])"

declare number_to_letters.simps [simp del]

definition letter_value :: "char \<Rightarrow> int" where
  "letter_value c = int (length (takeWhile (\<lambda>x. x \<noteq> c) ''ABCDEFGHIJKLMNOPQRSTUVWXYZ'')) + 1"

definition letters_to_number :: "string \<Rightarrow> int" where
  "letters_to_number s = foldl (\<lambda>n c. n * 26 + letter_value c) 0 s"

definition Reference_str :: "reference \<Rightarrow> string" where
  "Reference_str r =
     (case sheet_name r of
        None \<Rightarrow> column_letter r @ str_int (row_number r)
      | Some n \<Rightarrow>
          (if n = [] then column_letter r @ str_int (row_number r)
           else [CHR 0x27] @ n @ [CHR 0x27] @ ''!'' @ column_letter r @ str_int (row_number r)))"

definition Reference_components :: "reference \<Rightarrow> pyval" where
  "Reference_components r =
     PyDict [(''column_letter'', PyStr (column_letter r)),
             (''row_number'', PyInt (row_number r)),
             (''sheet_name'', (case sheet_name r of None \<Rightarrow> PyNone | Some n \<Rightarrow> PyStr n)),
             (''column_number'', PyInt (column_number r))]"

definition Reference_to_dict :: "reference \<Rightarrow> pyval" where
  "Reference_to_dict r =
     PyDict [(''reference'', PyStr (Reference_str r)), (''components'', Reference_components r)]"

fun int_field :: "pyval \<Rightarrow> error + int" where
  "int_field (PyInt i) = Inr i"
| "int_field v = Inl TypeError"

fun str_field :: "pyval \<Rightarrow> error + string" where
  "str_field (PyStr s) = Inr s"
| "str_field v = Inl TypeError"

fun sheet_field :: "pyval \<Rightarrow> error + string option" where
  "sheet_field PyNone = Inr None"
| "sheet_field (PyStr s) = Inr (Some s)"
| "sheet_field v = Inl TypeError"

definition bind :: "error + 'a \<Rightarrow> ('a \<Rightarrow> error + 'b) \<Rightarrow> error + 'b" where
  "bind x f = (case x of Inl e \<Rightarrow> Inl e | Inr v \<Rightarrow> f v)"

definition Reference_from_dict :: "pyval \<Rightarrow> error + reference" where
  "Reference_from_dict d =
     bind (py_getitem d ''components'') (\<lambda>comps.
     bind (bind (py_getitem comps ''column_letter'') str_field) (\<lambda>col.
     bind (bind (py_getitem comps ''row_number'') int_field) (\<lambda>row.
     bind (bind (py_getitem comps ''sheet_name'') sheet_field) (\<lambda>sheet.
     bind (bind (py_getitem comps ''column_number'') int_field) (\<lambda>coln.
     Inr \<lparr>sheet_name = sheet, column_letter = col, row_number = row,
          column_number = coln\<rparr>)))))"

definition update_column_number :: "reference \<Rightarrow> int \<Rightarrow> reference" where
  "update_column_number r n = r\<lparr>column_number := n, column_letter := number_to_letters n\<rparr>"

definition update_row_number :: "reference \<Rightarrow> int \<Rightarrow> reference" where
  "update_row_number r n = r\<lparr>row_number := n\<rparr>"

section \<open>The collaborators of the parser\<close>

text \<open>
  \<^verbatim>\<open>parser.py\<close> imports the classes \<^verbatim>\<open>Function\<close>, \<^verbatim>\<open>Range\<close>,
  \<^verbatim>\<open>Reference\<close>, \<^verbatim>\<open>Constant\<close> and \<^verbatim>\<open>Expression\<close> of the package \<^verbatim>\<open>Models\<close>; only
  \<^verbatim>\<open>parser.py\<close> itself is among the sources. What the parser calls on them is a
  parameter of the model: one field for each call the parser makes, applied to the text the
  object is built from. They are taken to be pure and to return normally, except for the
  constructor of a Reference, which \<^verbatim>\<open>translate\<close> applies to the caller's cell names,
  and the \<^verbatim>\<open>from_dict\<close> constructors. An object that \<^verbatim>\<open>translate\<close> rebuilds is seen
  through its \<^verbatim>\<open>str()\<close> and its \<^verbatim>\<open>to_dict()\<close> only; a \<^verbatim>\<open>from_dict\<close> that a class may
  lack (the parser asks with \<^verbatim>\<open>hasattr\<close>) is optional.
\<close>

record env =
  is_function_string :: "string \<Rightarrow> bool"
  Function_name :: "string \<Rightarrow> string"
  Function_args :: "string \<Rightarrow> string list"
  Function_str :: "string \<Rightarrow> string"
  Function_from_dict :: "pyval \<Rightarrow> error + (string \<times> pyval)"
  is_valid_range :: "string \<Rightarrow> bool"
  Range_to_dict :: "string \<Rightarrow> pyval"
  Range_from_dict :: "(pyval \<Rightarrow> error + (string \<times> pyval)) option"
  is_valid_reference :: "string \<Rightarrow> bool"
  Reference_init :: "string \<Rightarrow> error + reference"
  is_valid_constant :: "string \<Rightarrow> bool"
  Constant_to_dict :: "string \<Rightarrow> pyval"
  has_balanced_parentheses :: "string \<Rightarrow> bool"
  is_valid_expression :: "string \<Rightarrow> bool"
  Expression_str :: "string \<Rightarrow> string"
  Expression_expression :: "string \<Rightarrow> string list"
  Expression_operators :: "string list"
  Expression_from_dict :: "(pyval \<Rightarrow> error + (string \<times> pyval)) option"

section \<open>The Parser class\<close>

text \<open>
  A Parser object has the attributes \<^verbatim>\<open>formula\<close> and \<^verbatim>\<open>full_formula\<close>, set by the
  constructor, and \<^verbatim>\<open>parsed_formula\<close>, which only \<^verbatim>\<open>translate\<close> sets.
\<close>

record parser =
  formula :: string
  full_formula :: string
  parsed_formula :: "pyval option"

definition Parser_init :: "env \<Rightarrow> string \<Rightarrow> error + parser" where
  "Parser_init E formula_str =
     (if take 1 formula_str \<noteq> ''='' then
        Inl (ValueError ''Formula must start with an '=' sign.'')
      else if \<not> has_balanced_parentheses E formula_str then
        Inl (ValueError ''Unbalanced parentheses in formula.'')
      else Inr \<lparr>formula = drop 1 formula_str, full_formula = formula_str,
                parsed_formula = None\<rparr>)"

text \<open>
  \<^verbatim>\<open>parse_expression\<close>. The recursion on the argument and operand texts follows what the
  collaborators return, so the function takes the remaining stack depth; the branch for
  a dictionary updates the dictionary and returns it, and a value that is neither a
  dictionary nor a string falls through both tests and yields \<^verbatim>\<open>None\<close>.
\<close>

fun parse_expression :: "env \<Rightarrow> nat \<Rightarrow> pyval \<Rightarrow> error + pyval" where
  "parse_expression E 0 expr = Inl RecursionError"
| "parse_expression E (Suc depth) (PyDict kvs) =
     (if ''function'' \<in> set (map fst kvs) then
        bind (py_getitem (PyDict kvs) ''components'') (\<lambda>comps.
        bind (py_getitem comps ''arguments'') (\<lambda>arguments.
        bind (py_iter arguments) (\<lambda>args.
        bind (collect (map (parse_expression E depth) args)) (\<lambda>parsed.
        bind (py_setitem comps ''arguments'' (PyList parsed)) (\<lambda>comps'.
        Inr (PyDict (AList.update ''components'' comps' kvs)))))))
      else if ''expression'' \<in> set (map fst kvs) then
        bind (py_getitem (PyDict kvs) ''components'') (parse_expression E depth)
      else Inr (PyDict kvs))"
| "parse_expression E (Suc depth) (PyStr s) =
     (let expr = strip s in
      if is_function_string E expr then
        bind (collect (map (\<lambda>arg. parse_expression E depth (PyStr arg)) (Function_args E expr)))
          (\<lambda>arguments.
             Inr (PyDict [(''function'', PyStr (Function_str E expr)),
                          (''components'',
                             PyDict [(''name'', PyStr (Function_name E expr)),
                                     (''arguments'', PyList arguments)])]))
      else if is_valid_range E expr then Inr (Range_to_dict E expr)
      else if is_valid_reference E expr then
        bind (Reference_init E expr) (\<lambda>ref. Inr (Reference_to_dict ref))
      else if is_valid_constant E expr then Inr (Constant_to_dict E expr)
      else if is_valid_expression E expr then
        bind (collect (map (\<lambda>part. parse_expression E depth (PyStr part))
                (Expression_expression E expr)))
          (\<lambda>parts.
             Inr (PyDict [(''expression'', PyStr (Expression_str E expr)),
                          (''components'', PyList parts)]))
      else if list_ex (\<lambda>op. is_substring op expr) (Expression_operators E) \<and> length expr = 1
        then Inr (PyDict [(''operator'', PyStr expr)])
      else Inr PyNone)"
| "parse_expression E (Suc depth) expr = Inr PyNone"

definition parse :: "env \<Rightarrow> nat \<Rightarrow> parser \<Rightarrow> error + pyval" where
  "parse E depth self = parse_expression E depth (PyStr (formula self))"

definition to_dict :: "env \<Rightarrow> nat \<Rightarrow> parser \<Rightarrow> error + pyval" where
  "to_dict E depth self = parse E depth self"

text \<open>\<^verbatim>\<open>__str__\<close>; \<^verbatim>\<open>json.dumps\<close> with its indentation is the standard library's and a
  parameter here.\<close>

definition Parser_str ::
  "(pyval \<Rightarrow> string) \<Rightarrow> env \<Rightarrow> nat \<Rightarrow> parser \<Rightarrow> error + string" where
  "Parser_str json_dumps E depth self =
     bind (parse E depth self) (\<lambda>parsed_formula. Inr (json_dumps parsed_formula))"

text \<open>
  \<^verbatim>\<open>json_to_string\<close>, a static method: it dispatches on the keys of the node, in the
  order function, reference, range, expression, operator, constant, and yields \<^verbatim>\<open>None\<close>
  for a dictionary with none of them. It recurses on the arguments of a function and on
  the parts of an expression, one stack frame for each level of the tree.
\<close>

fun json_to_string :: "nat \<Rightarrow> pyval \<Rightarrow> error + pyval" where
  "json_to_string 0 json_obj = Inl RecursionError"
| "json_to_string (Suc depth) json_obj =
     bind (py_in ''function'' json_obj) (\<lambda>is_function.
     if is_function then
       bind (py_getitem json_obj ''components'') (\<lambda>func.
       bind (py_getitem func ''arguments'') (\<lambda>arguments.
       bind (py_iter arguments) (\<lambda>args.
       bind (collect (map (json_to_string depth) args)) (\<lambda>strs.
       bind (py_join '', '' strs) (\<lambda>args_str.
       bind (py_getitem func ''name'') (\<lambda>name.
       Inr (PyStr (py_str name @ ''('' @ args_str @ '')''))))))))
     else
     bind (py_in ''reference'' json_obj) (\<lambda>is_reference.
     if is_reference then
       bind (py_getitem json_obj ''components'') (\<lambda>cell_ref.
       bind (py_getitem cell_ref ''sheet_name'') (\<lambda>sheet.
       if \<not> py_bool sheet then
         bind (py_getitem cell_ref ''column_letter'') (\<lambda>col.
         bind (py_getitem cell_ref ''row_number'') (\<lambda>row.
         Inr (PyStr (py_str col @ py_str row))))
       else
         bind (py_getitem cell_ref ''column_letter'') (\<lambda>col.
         bind (py_getitem cell_ref ''row_number'') (\<lambda>row.
         Inr (PyStr ([CHR 0x27] @ py_str sheet @ [CHR 0x27] @ ''!'' @ py_str col @
                py_str row))))))
     else
     bind (py_in ''range'' json_obj) (\<lambda>is_range.
     if is_range then
       bind (py_getitem json_obj ''components'') (\<lambda>range_obj.
       bind (py_getitem range_obj ''start'') (\<lambda>start.
       bind (py_getitem range_obj ''end'') (\<lambda>end.
       Inr (PyStr (py_str start @ '':'' @ py_str end)))))
     else
     bind (py_in ''expression'' json_obj) (\<lambda>is_expression.
     if is_expression then
       bind (py_getitem json_obj ''components'') (\<lambda>components.
       bind (py_iter components) (\<lambda>parts.
       bind (collect (map (json_to_string depth) parts)) (\<lambda>strs.
       bind (py_join '' '' strs) (\<lambda>expression_parts.
       Inr (PyStr (''('' @ expression_parts @ '')''))))))
     else
     bind (py_in ''operator'' json_obj) (\<lambda>is_operator.
     if is_operator then py_getitem json_obj ''operator''
     else
     bind (py_in ''constant'' json_obj) (\<lambda>is_constant.
     if is_constant then
       bind (py_getitem json_obj ''constant'') (\<lambda>c. Inr (PyStr (py_str c)))
     else Inr PyNone))))))"

definition reconstructed_formula :: "env \<Rightarrow> nat \<Rightarrow> parser \<Rightarrow> error + string" where
  "reconstructed_formula E depth self =
     bind (parse E depth self) (\<lambda>parsed_formula.
     bind (json_to_string depth parsed_formula) (\<lambda>s. Inr (''='' @ py_str s)))"


text \<open>
  \<^verbatim>\<open>get_all_keys_with_counts\<close>, a static method. The inner \<^verbatim>\<open>count_keys\<close> runs over
  the items of a dictionary, counts a key that is acceptable, and descends into a value
  that is a dictionary and into the dictionaries that are elements of a value that is a
  list. The counts are a dictionary from keys to numbers; \<^verbatim>\<open>keys_count\<close> and
  \<^verbatim>\<open>label\<close> are optional arguments.
\<close>

definition keys_count_get :: "(string \<times> int) list \<Rightarrow> string \<Rightarrow> int \<Rightarrow> int" where
  "keys_count_get keys_count key dflt =
     (case map_of keys_count key of None \<Rightarrow> dflt | Some n \<Rightarrow> n)"

fun count_keys ::
  "string set \<Rightarrow> (string \<times> pyval) list \<Rightarrow> (string \<times> int) list \<Rightarrow> (string \<times> int) list"
where
  "count_keys acceptable_keys item keys_count =
     fold (\<lambda>kv kc.
        let kc1 = (if fst kv \<in> acceptable_keys
                   then AList.update (fst kv) (keys_count_get kc (fst kv) 0 + 1) kc else kc)
        in (case snd kv of
              PyDict sub \<Rightarrow> count_keys acceptable_keys sub kc1
            | PyList xs \<Rightarrow>
                fold (\<lambda>sub_item kc2.
                   (case sub_item of
                      PyDict sub \<Rightarrow> count_keys acceptable_keys sub kc2
                    | _ \<Rightarrow> kc2)) xs kc1
            | _ \<Rightarrow> kc1)) item keys_count"

declare count_keys.simps [simp del]

definition acceptable_keys :: "string option \<Rightarrow> string set" where
  "acceptable_keys label =
     (case label of
        None \<Rightarrow> {''function'', ''arguments'', ''expression'', ''range'', ''reference'',
                 ''constant'', ''operator''}
      | Some l \<Rightarrow>
          (if l \<noteq> [] then {l}
           else {''function'', ''arguments'', ''expression'', ''range'', ''reference'',
                 ''constant'', ''operator''}))"

definition get_all_keys_with_counts ::
  "pyval \<Rightarrow> (string \<times> int) list option \<Rightarrow> string option \<Rightarrow> error + (string \<times> int) list"
where
  "get_all_keys_with_counts d keys_count label =
     (case d of
        PyDict item \<Rightarrow>
          Inr (count_keys (acceptable_keys label) item
                 (case keys_count of None \<Rightarrow> [] | Some kc \<Rightarrow> kc))
      | _ \<Rightarrow> Inl AttributeError)"

text \<open>
  What \<^verbatim>\<open>count_keys\<close> does with one value of a dictionary, after it has counted the
  key: the body of its loop from the test \<^verbatim>\<open>isinstance(value, dict)\<close> on.
\<close>

definition count_value ::
  "string set \<Rightarrow> pyval \<Rightarrow> (string \<times> int) list \<Rightarrow> (string \<times> int) list" where
  "count_value acceptable v kc =
     (case v of
        PyDict sub \<Rightarrow> count_keys acceptable sub kc
      | PyList xs \<Rightarrow>
          fold (\<lambda>sub_item kc2.
             (case sub_item of PyDict sub \<Rightarrow> count_keys acceptable sub kc2 | _ \<Rightarrow> kc2)) xs kc
      | _ \<Rightarrow> kc)"

text \<open>
  The count in the words of the spec: the occurrences of a key in a tree are those among
  the keys of every dictionary of the tree, through all nested dictionaries and lists. In
  the trees of the parser a list holds nodes, never a list.
\<close>

fun occurrences :: "string \<Rightarrow> pyval \<Rightarrow> nat" where
  "occurrences key (PyDict kvs) =
     length (filter (\<lambda>kv. fst kv = key) kvs) + sum_list (map (\<lambda>kv. occurrences key (snd kv)) kvs)"
| "occurrences key (PyList xs) = sum_list (map (occurrences key) xs)"
| "occurrences key v = 0"

fun lists_of_nodes :: "pyval \<Rightarrow> bool" where
  "lists_of_nodes (PyDict kvs) = list_all (\<lambda>kv. lists_of_nodes (snd kv)) kvs"
| "lists_of_nodes (PyList xs) = list_all (\<lambda>x. \<not> isinstance_list x \<and> lists_of_nodes x) xs"
| "lists_of_nodes v = True"

text \<open>
  The occurrences \<^verbatim>\<open>count_keys\<close> comes to: those of \<open>occurrences\<close>, except that a
  list which is an element of a list is passed over (the loop over a list descends into
  the elements that are dictionaries).
\<close>

fun reached :: "string \<Rightarrow> pyval \<Rightarrow> nat" where
  "reached key (PyDict kvs) =
     length (filter (\<lambda>kv. fst kv = key) kvs) + sum_list (map (\<lambda>kv. reached key (snd kv)) kvs)"
| "reached key (PyList xs) =
     sum_list (map (reached key) (filter (\<lambda>x. \<not> isinstance_list x) xs))"
| "reached key v = 0"

text \<open>A count of \<open>n\<close> more occurrences, added to the entry of a key in the counts.\<close>

definition add_count :: "nat \<Rightarrow> int option \<Rightarrow> int option" where
  "add_count n m = (if n = 0 then m else Some ((case m of None \<Rightarrow> 0 | Some x \<Rightarrow> x) + int n))"

text \<open>
  \<^verbatim>\<open>translate\<close> and its three inner functions. An object that
  \<^verbatim>\<open>reconstruct_expression\<close> returns is either an object of a class of \<^verbatim>\<open>Models\<close>,
  seen through its \<^verbatim>\<open>str()\<close> and \<^verbatim>\<open>to_dict()\<close>, or the dictionary it was given.
\<close>

datatype reconstruction = Obj string pyval | Plain pyval

definition update_reference :: "int \<Rightarrow> int \<Rightarrow> pyval \<Rightarrow> error + pyval" where
  "update_reference col_shift row_shift ref_dict =
     bind (Reference_from_dict (PyDict [(''components'', ref_dict)])) (\<lambda>ref_obj.
       let ref_obj1 = update_column_number ref_obj (column_number ref_obj + col_shift);
           ref_obj2 = update_row_number ref_obj1 (row_number ref_obj1 + row_shift)
       in Inr (Reference_to_dict ref_obj2))"

definition object_name_map ::
  "env \<Rightarrow> (string \<times> (pyval \<Rightarrow> error + (string \<times> pyval)) option) list" where
  "object_name_map E =
     [(''expression'', Expression_from_dict E),
      (''range'', Range_from_dict E),
      (''reference'',
         Some (\<lambda>d. bind (Reference_from_dict d)
                      (\<lambda>r. Inr (Reference_str r, Reference_to_dict r))))]"

text \<open>The loop of \<^verbatim>\<open>reconstruct_expression\<close>: \<open>Some\<close> when it returns from inside the
  loop.\<close>

fun reconstruct_loop ::
  "(string \<times> (pyval \<Rightarrow> error + (string \<times> pyval)) option) list \<Rightarrow> pyval \<Rightarrow>
   (error + reconstruction) option" where
  "reconstruct_loop [] data = None"
| "reconstruct_loop ((key, class_from_dict) # rest) data =
     (case py_in key data of
        Inl e \<Rightarrow> Some (Inl e)
      | Inr present \<Rightarrow>
          (if present then
             (case class_from_dict of
                Some from_dict \<Rightarrow>
                  Some (bind (py_getitem data key) (\<lambda>v.
                        bind (from_dict (PyDict [(''components'', v)])) (\<lambda>sd.
                        Inr (Obj (fst sd) (snd sd)))))
              | None \<Rightarrow> reconstruct_loop rest data)
           else reconstruct_loop rest data))"

definition reconstruct_expression :: "env \<Rightarrow> pyval \<Rightarrow> error + reconstruction" where
  "reconstruct_expression E data =
     (case reconstruct_loop (object_name_map E) data of
        Some r \<Rightarrow> r
      | None \<Rightarrow>
          bind (py_in ''function'' data) (\<lambda>is_function.
          if is_function then
            bind (Function_from_dict E data) (\<lambda>sd. Inr (Obj (fst sd) (snd sd)))
          else Inr (Plain data)))"

text \<open>\<^verbatim>\<open>data[key] = str(reconstruction)\<close> and
  \<^verbatim>\<open>data['components'] = reconstruction.to_dict()['components']\<close>; a plain dictionary
  has no \<^verbatim>\<open>to_dict\<close>.\<close>

fun assign_reconstruction ::
  "string \<Rightarrow> reconstruction \<Rightarrow> (string \<times> pyval) list \<Rightarrow> error + (string \<times> pyval) list" where
  "assign_reconstruction key (Obj s d) data =
     bind (py_getitem d ''components'') (\<lambda>components.
     Inr (AList.update ''components'' components (AList.update key (PyStr s) data)))"
| "assign_reconstruction key (Plain v) data = Inl AttributeError"

text \<open>
  The loop \<^verbatim>\<open>for key, value in data.items()\<close> of \<^verbatim>\<open>recurse_translate\<close>, which
  assigns to the dictionary it runs over: the keys are those the dictionary had when the
  loop began, each value is read when its turn comes, and a step that has added a key ends
  the loop with Python's \<^verbatim>\<open>RuntimeError\<close> (dictionary changed size during iteration).
  No step removes a key, so the value of a key is always found. \<open>recurse\<close> is the
  recursive call.
\<close>

fun translate_items ::
  "env \<Rightarrow> (pyval \<Rightarrow> error + pyval) \<Rightarrow> string list \<Rightarrow> (string \<times> pyval) list \<Rightarrow>
   error + (string \<times> pyval) list" where
  "translate_items E recurse [] data = Inr data"
| "translate_items E recurse (key # keys) data =
     (case map_of data key of
        None \<Rightarrow> Inl RuntimeError
      | Some v \<Rightarrow>
          bind
            (if isinstance_dict v \<or> isinstance_list v then
               bind (recurse v) (\<lambda>v'. Inr (AList.update key v' data))
             else if key \<in> set (map fst (object_name_map E)) then
               bind (reconstruct_expression E (PyDict [(key, v)])) (\<lambda>reconstruction.
               assign_reconstruction key reconstruction data)
             else if key = ''function'' then
               bind (Function_from_dict E (PyDict data)) (\<lambda>sd.
               assign_reconstruction key (Obj (fst sd) (snd sd)) data)
             else Inr data)
            (\<lambda>data'.
               if length data' \<noteq> length data then Inl RuntimeError
               else translate_items E recurse keys data'))"

fun recurse_translate :: "env \<Rightarrow> int \<Rightarrow> int \<Rightarrow> nat \<Rightarrow> pyval \<Rightarrow> error + pyval" where
  "recurse_translate E col_shift row_shift 0 data = Inl RecursionError"
| "recurse_translate E col_shift row_shift (Suc depth) data =
     bind (py_in ''operator'' data) (\<lambda>is_operator.
     if is_operator then Inr data
     else
     bind (py_in ''constant'' data) (\<lambda>is_constant.
     if is_constant then Inr data
     else
       (case data of
          PyDict kvs \<Rightarrow>
            (if ''reference'' \<in> set (map fst kvs) then
               bind (py_getitem data ''components'') (\<lambda>components.
               bind (update_reference col_shift row_shift components) (\<lambda>updated_dict.
               bind (py_getitem updated_dict ''components'') (\<lambda>updated_components.
               bind (Reference_from_dict (PyDict [(''components'', updated_components)]))
                 (\<lambda>updated_ref.
               bind (py_getitem (Reference_to_dict updated_ref) ''components'') (\<lambda>c.
               Inr (PyDict (AList.update ''components'' c
                      (AList.update ''reference'' (PyStr (Reference_str updated_ref)) kvs))))))))
             else
               bind (translate_items E (recurse_translate E col_shift row_shift depth)
                       (map fst kvs) kvs)
                 (\<lambda>kvs'. Inr (PyDict kvs')))
        | PyList xs \<Rightarrow>
            bind (collect (map (recurse_translate E col_shift row_shift depth) xs))
              (\<lambda>ys. Inr (PyList ys))
        | _ \<Rightarrow> Inr data)))"

definition translate :: "env \<Rightarrow> nat \<Rightarrow> parser \<Rightarrow> string \<Rightarrow> string \<Rightarrow> error + parser" where
  "translate E depth self from_cell to_cell =
     bind (Reference_init E from_cell) (\<lambda>from_ref.
     bind (Reference_init E to_cell) (\<lambda>to_ref.
       let col_shift = column_number to_ref - column_number from_ref;
           row_shift = row_number to_ref - row_number from_ref
       in bind (parse E depth self) (\<lambda>tree.
          bind (recurse_translate E col_shift row_shift depth tree) (\<lambda>translated.
          Inr (self\<lparr>parsed_formula := Some translated\<rparr>)))))"

section \<open>The recognizers, from the spec\<close>

text \<open>
  The classes \<^verbatim>\<open>Function\<close>, \<^verbatim>\<open>Range\<close>, \<^verbatim>\<open>Constant\<close> and \<^verbatim>\<open>Expression\<close> and the
  text side of \<^verbatim>\<open>Reference\<close> are not among the sources. The definitions of this section
  give one instance of the collaborators, each written from the contract the spec states
  for it; the theorems that hold for every instance do not use them.
\<close>

definition is_upper :: "char \<Rightarrow> bool" where
  "is_upper c \<longleftrightarrow> c \<in> set ''ABCDEFGHIJKLMNOPQRSTUVWXYZ''"

definition is_digit :: "char \<Rightarrow> bool" where
  "is_digit c \<longleftrightarrow> c \<in> set ''0123456789''"

definition is_ident_start :: "char \<Rightarrow> bool" where
  "is_ident_start c \<longleftrightarrow> is_upper c \<or> c \<in> set ''abcdefghijklmnopqrstuvwxyz_''"

definition is_ident_char :: "char \<Rightarrow> bool" where
  "is_ident_char c \<longleftrightarrow> is_ident_start c \<or> is_digit c"

definition digits_value :: "string \<Rightarrow> int" where
  "digits_value s =
     foldl (\<lambda>n c. n * 10 + int (length (takeWhile (\<lambda>x. x \<noteq> c) ''0123456789''))) 0 s"

text \<open>
  Modelled from the spec: \<^verbatim>\<open>Expression.has_balanced_parentheses\<close> (the class
  \<^verbatim>\<open>Expression\<close> is missing). Parentheses balance when no closing parenthesis comes
  before its opening one and none is left open. \<open>d\<close> counts the open ones.
\<close>

fun balanced_from :: "nat \<Rightarrow> string \<Rightarrow> bool" where
  "balanced_from d [] = (d = 0)"
| "balanced_from d (c # cs) =
     (if c = CHR ''('' then balanced_from (Suc d) cs
      else if c = CHR '')'' then (case d of 0 \<Rightarrow> False | Suc d' \<Rightarrow> balanced_from d' cs)
      else balanced_from d cs)"

definition spec_has_balanced_parentheses :: "string \<Rightarrow> bool" where
  "spec_has_balanced_parentheses s = balanced_from 0 s"

text \<open>The text after an opening parenthesis runs to the parenthesis that closes it, and
  that one is the last character: the parenthesized part spans the rest of the text.\<close>

fun closes_at_end :: "nat \<Rightarrow> string \<Rightarrow> bool" where
  "closes_at_end d [] = False"
| "closes_at_end d (c # cs) =
     (if c = CHR ''('' then closes_at_end (Suc d) cs
      else if c = CHR '')'' then (case d of 0 \<Rightarrow> cs = [] | Suc d' \<Rightarrow> closes_at_end d' cs)
      else closes_at_end d cs)"

text \<open>
  Modelled from the spec: the class \<^verbatim>\<open>Function\<close> (missing). A function string is an
  identifier, an opening parenthesis and the text up to the parenthesis that closes it,
  which ends the string. The name is the text before the first opening parenthesis; the
  arguments are the interior split at the commas outside any inner parenthesis, each
  trimmed, and an empty interior has no argument; the string form joins the arguments
  with a comma and a space.
\<close>

definition spec_is_function_string :: "string \<Rightarrow> bool" where
  "spec_is_function_string s =
     (case takeWhile (\<lambda>c. c \<noteq> CHR ''('') s of
        [] \<Rightarrow> False
      | c # cs \<Rightarrow>
          is_ident_start c \<and> list_all is_ident_char cs \<and>
          (case dropWhile (\<lambda>c. c \<noteq> CHR ''('') s of
             [] \<Rightarrow> False
           | p # rest \<Rightarrow> closes_at_end 0 rest))"

definition spec_Function_name :: "string \<Rightarrow> string" where
  "spec_Function_name s = takeWhile (\<lambda>c. c \<noteq> CHR ''('') s"

fun split_commas :: "nat \<Rightarrow> string \<Rightarrow> string \<Rightarrow> string list" where
  "split_commas d cur [] = [cur]"
| "split_commas d cur (c # cs) =
     (if c = CHR '','' \<and> d = 0 then cur # split_commas d [] cs
      else if c = CHR ''('' then split_commas (Suc d) (cur @ [c]) cs
      else if c = CHR '')'' then split_commas (d - 1) (cur @ [c]) cs
      else split_commas d (cur @ [c]) cs)"

definition spec_Function_args :: "string \<Rightarrow> string list" where
  "spec_Function_args s =
     (let interior = butlast (drop 1 (dropWhile (\<lambda>c. c \<noteq> CHR ''('') s))
      in if strip interior = [] then [] else map strip (split_commas 0 [] interior))"

definition spec_Function_str :: "string \<Rightarrow> string" where
  "spec_Function_str s = spec_Function_name s @ ''('' @ join '', '' (spec_Function_args s) @ '')''"

text \<open>
  Modelled from the spec: \<^verbatim>\<open>Function.from_dict\<close> with the \<^verbatim>\<open>str()\<close> and
  \<^verbatim>\<open>to_dict()\<close> of the object it builds. The structured form round-trips the name and
  the arguments; the string form joins the string forms the argument nodes carry (the
  value under the kind tag of a node).
\<close>

fun cached_string :: "pyval \<Rightarrow> string" where
  "cached_string (PyDict kvs) =
     (case List.find (\<lambda>kv. fst kv \<in> set [''function'', ''reference'', ''range'',
                                  ''expression'', ''operator'', ''constant'']) kvs of
        None \<Rightarrow> py_str (PyDict kvs)
      | Some kv \<Rightarrow> py_str (snd kv))"
| "cached_string v = py_str v"

definition spec_Function_from_dict :: "pyval \<Rightarrow> error + (string \<times> pyval)" where
  "spec_Function_from_dict d =
     bind (py_getitem d ''components'') (\<lambda>components.
     bind (bind (py_getitem components ''name'') str_field) (\<lambda>name.
     bind (py_getitem components ''arguments'') (\<lambda>arguments.
     bind (py_iter arguments) (\<lambda>args.
       let s = name @ ''('' @ join '', '' (map cached_string args) @ '')''
       in Inr (s, PyDict [(''function'', PyStr s),
                          (''components'',
                             PyDict [(''name'', PyStr name), (''arguments'', arguments)])])))))"

text \<open>
  Modelled from the spec: the text side of \<^verbatim>\<open>Reference\<close> (missing). A reference is an
  optional sheet name between single quotes followed by an exclamation mark, then one or
  more letters, then one or more digits that run to the end. The letters are the capital
  letters of the column conversion. The constructor fails on any other text with the
  error the spec names for it.
\<close>

definition parse_cell :: "string option \<Rightarrow> string \<Rightarrow> reference option" where
  "parse_cell sheet cell =
     (let letters = takeWhile is_upper cell; digits = dropWhile is_upper cell
      in if letters \<noteq> [] \<and> digits \<noteq> [] \<and> list_all is_digit digits
         then Some \<lparr>sheet_name = sheet, column_letter = letters,
                    row_number = digits_value digits,
                    column_number = letters_to_number letters\<rparr>
         else None)"

definition parse_reference :: "string \<Rightarrow> reference option" where
  "parse_reference s =
     (case s of
        [] \<Rightarrow> None
      | c # cs \<Rightarrow>
          (if c = CHR 0x27 then
             (let name = takeWhile (\<lambda>x. x \<noteq> CHR 0x27) cs;
                  rest = dropWhile (\<lambda>x. x \<noteq> CHR 0x27) cs
              in if name \<noteq> [] \<and> take 2 rest = [CHR 0x27, CHR ''!'']
                 then parse_cell (Some name) (drop 2 rest) else None)
           else parse_cell None s))"

definition spec_is_valid_reference :: "string \<Rightarrow> bool" where
  "spec_is_valid_reference s = (parse_reference s \<noteq> None)"

definition spec_Reference_init :: "string \<Rightarrow> error + reference" where
  "spec_Reference_init s =
     (case parse_reference s of None \<Rightarrow> Inl (InvalidReference s) | Some r \<Rightarrow> Inr r)"

text \<open>
  Modelled from the spec: the class \<^verbatim>\<open>Range\<close> (missing). A range is two valid
  references separated by the one colon of the text; its structured form holds the two
  endpoints as full Reference nodes, and its string form is \<^verbatim>\<open>start:end\<close>.
  \<open>spec_Range_to_dict\<close> is only applied to a text that is a valid range.
\<close>

definition range_ends :: "string \<Rightarrow> (reference \<times> reference) option" where
  "range_ends s =
     (case dropWhile (\<lambda>c. c \<noteq> CHR '':'') s of
        [] \<Rightarrow> None
      | c # rest \<Rightarrow>
          (if CHR '':'' \<in> set rest then None
           else (case parse_reference (takeWhile (\<lambda>c. c \<noteq> CHR '':'') s) of
                   None \<Rightarrow> None
                 | Some a \<Rightarrow>
                     (case parse_reference rest of None \<Rightarrow> None | Some b \<Rightarrow> Some (a, b)))))"

definition spec_is_valid_range :: "string \<Rightarrow> bool" where
  "spec_is_valid_range s = (range_ends s \<noteq> None)"

definition Range_node :: "reference \<Rightarrow> reference \<Rightarrow> string \<times> pyval" where
  "Range_node a b =
     (let s = Reference_str a @ '':'' @ Reference_str b
      in (s, PyDict [(''range'', PyStr s),
                     (''components'',
                        PyDict [(''start'', Reference_to_dict a),
                                (''end'', Reference_to_dict b)])]))"

definition spec_Range_to_dict :: "string \<Rightarrow> pyval" where
  "spec_Range_to_dict s =
     (case range_ends s of None \<Rightarrow> PyNone | Some ab \<Rightarrow> snd (Range_node (fst ab) (snd ab)))"

definition spec_Range_from_dict :: "pyval \<Rightarrow> error + (string \<times> pyval)" where
  "spec_Range_from_dict d =
     bind (py_getitem d ''components'') (\<lambda>components.
     bind (bind (py_getitem components ''start'') Reference_from_dict) (\<lambda>a.
     bind (bind (py_getitem components ''end'') Reference_from_dict) (\<lambda>b.
     Inr (Range_node a b))))"

text \<open>
  Modelled from the spec: the class \<^verbatim>\<open>Constant\<close> (missing). A constant is an integer
  or decimal numeral, a text between double quotes, or one of the boolean keywords; its
  node holds the typed value, so the quoted \<^verbatim>\<open>"5"\<close> and the number \<^verbatim>\<open>5\<close> differ. A
  decimal becomes a float, written as the literal has it (the rounding to a double is not
  modelled). \<open>spec_Constant_to_dict\<close> is only applied to a valid constant.
\<close>

definition is_integer_literal :: "string \<Rightarrow> bool" where
  "is_integer_literal s \<longleftrightarrow> s \<noteq> [] \<and> list_all is_digit s"

definition is_decimal_literal :: "string \<Rightarrow> bool" where
  "is_decimal_literal s \<longleftrightarrow>
     is_integer_literal (takeWhile (\<lambda>c. c \<noteq> CHR ''.'') s) \<and>
     (case dropWhile (\<lambda>c. c \<noteq> CHR ''.'') s of
        [] \<Rightarrow> False
      | c # rest \<Rightarrow> is_integer_literal rest)"

definition is_quoted_literal :: "string \<Rightarrow> bool" where
  "is_quoted_literal s \<longleftrightarrow>
     (case s of
        [] \<Rightarrow> False
      | c # cs \<Rightarrow>
          c = CHR 0x22 \<and> cs \<noteq> [] \<and> last cs = CHR 0x22 \<and> CHR 0x22 \<notin> set (butlast cs))"

definition spec_is_valid_constant :: "string \<Rightarrow> bool" where
  "spec_is_valid_constant s \<longleftrightarrow>
     is_integer_literal s \<or> is_decimal_literal s \<or> is_quoted_literal s \<or>
     s = ''TRUE'' \<or> s = ''FALSE''"

definition spec_Constant_to_dict :: "string \<Rightarrow> pyval" where
  "spec_Constant_to_dict s =
     PyDict [(''constant'',
        (if is_integer_literal s then PyInt (digits_value s)
         else if is_decimal_literal s then PyFloat s
         else if is_quoted_literal s then PyStr (butlast (drop 1 s))
         else PyBool (s = ''TRUE'')))]"

text \<open>
  Modelled from the spec: the class \<^verbatim>\<open>Expression\<close> (missing). The operators are
  one-character symbols of a fixed set, which the spec does not list: the arithmetic,
  concatenation and comparison characters are taken here. An expression is split, after
  one layer of enclosing parentheses is removed, at the operators outside any parenthesis
  and outside a quoted text, into trimmed operands and operators in their order. A valid
  expression is balanced and is a parenthesized group or operands joined by operators, so
  a lone operator is not one (it is the sixth rule's). The string form is the text, and
  the class has no \<^verbatim>\<open>from_dict\<close>: the spec names one only for the other four.
\<close>

definition spec_operators :: "string list" where
  "spec_operators = [''+'', ''-'', ''*'', ''/'', ''^'', ''&'', ''='', ''<'', ''>'']"

definition is_operator_char :: "char \<Rightarrow> bool" where
  "is_operator_char c \<longleftrightarrow> [c] \<in> set spec_operators"

definition is_group :: "string \<Rightarrow> bool" where
  "is_group s = (case s of [] \<Rightarrow> False | c # cs \<Rightarrow> c = CHR ''('' \<and> closes_at_end 0 cs)"

fun split_operators :: "nat \<Rightarrow> bool \<Rightarrow> string \<Rightarrow> string \<Rightarrow> string list" where
  "split_operators d quoted cur [] = [cur]"
| "split_operators d quoted cur (c # cs) =
     (if c = CHR 0x22 then split_operators d (\<not> quoted) (cur @ [c]) cs
      else if quoted then split_operators d quoted (cur @ [c]) cs
      else if d = 0 \<and> is_operator_char c then cur # [c] # split_operators d quoted [] cs
      else if c = CHR ''('' then split_operators (Suc d) quoted (cur @ [c]) cs
      else if c = CHR '')'' then split_operators (d - 1) quoted (cur @ [c]) cs
      else split_operators d quoted (cur @ [c]) cs)"

definition spec_Expression_expression :: "string \<Rightarrow> string list" where
  "spec_Expression_expression s =
     filter (\<lambda>part. part \<noteq> [])
       (map strip (split_operators 0 False [] (if is_group s then butlast (drop 1 s) else s)))"

definition is_operator_part :: "string \<Rightarrow> bool" where
  "is_operator_part part \<longleftrightarrow> part \<in> set spec_operators"

definition spec_is_valid_expression :: "string \<Rightarrow> bool" where
  "spec_is_valid_expression s \<longleftrightarrow>
     spec_has_balanced_parentheses s \<and>
     (is_group s \<or>
      (list_ex is_operator_part (spec_Expression_expression s) \<and>
       list_ex (\<lambda>part. \<not> is_operator_part part) (spec_Expression_expression s)))"

definition spec_env :: env where
  "spec_env =
     \<lparr>is_function_string = spec_is_function_string,
      Function_name = spec_Function_name,
      Function_args = spec_Function_args,
      Function_str = spec_Function_str,
      Function_from_dict = spec_Function_from_dict,
      is_valid_range = spec_is_valid_range,
      Range_to_dict = spec_Range_to_dict,
      Range_from_dict = Some spec_Range_from_dict,
      is_valid_reference = spec_is_valid_reference,
      Reference_init = spec_Reference_init,
      is_valid_constant = spec_is_valid_constant,
      Constant_to_dict = spec_Constant_to_dict,
      has_balanced_parentheses = spec_has_balanced_parentheses,
      is_valid_expression = spec_is_valid_expression,
      Expression_str = (\<lambda>s. s),
      Expression_expression = spec_Expression_expression,
      Expression_operators = spec_operators,
      Expression_from_dict = None\<rparr>"

section \<open>Trees of function calls\<close>







section \<open>Evaluation of the instance\<close>

lemmas spec_env_simps =
  spec_env_def spec_is_function_string_def spec_Function_name_def spec_Function_args_def
  spec_Function_str_def spec_is_valid_reference_def spec_Reference_init_def parse_reference_def
  parse_cell_def spec_is_valid_range_def range_ends_def spec_is_valid_constant_def
  is_integer_literal_def is_decimal_literal_def is_quoted_literal_def
  spec_is_valid_expression_def spec_Expression_expression_def spec_has_balanced_parentheses_def
  is_group_def is_operator_part_def is_operator_char_def spec_operators_def
  is_upper_def is_digit_def is_ident_start_def is_ident_char_def strip_def py_isspace_def
  digits_value_def letters_to_number_def letter_value_def bind_def Let_def

lemmas node_simps = Reference_to_dict_def Reference_components_def Reference_str_def
  str_int_def str_nat.simps Range_node_def spec_Range_to_dict_def spec_Constant_to_dict_def
  py_join_def

lemma Reference_from_dict_components:
  "Reference_from_dict (PyDict [(''components'', Reference_components r)]) = Inr r"
  by (cases r) (simp add: Reference_from_dict_def Reference_components_def bind_def
      split: option.splits)

lemma Reference_to_dict_components:
  "py_getitem (Reference_to_dict r) ''components'' = Inr (Reference_components r)"
  by (simp add: Reference_to_dict_def)

text \<open>The translation the module runs as its own example: the formula \<^verbatim>\<open>=SUM(A1, B2)\<close>
  moved from A1 to C3.\<close>

lemma translate_SUM_example:
  "translate spec_env (Suc (Suc (Suc (Suc depth))))
     \<lparr>formula = ''SUM(A1, B2)'', full_formula = ''=SUM(A1, B2)'', parsed_formula = None\<rparr>
     ''A1'' ''C3'' =
   Inr \<lparr>formula = ''SUM(A1, B2)'', full_formula = ''=SUM(A1, B2)'',
        parsed_formula = Some (PyDict
          [(''function'', PyStr ''SUM(A1, B2)''),
           (''components'',
              PyDict [(''name'', PyStr ''SUM''),
                      (''arguments'',
                         PyList
                          [PyDict [(''reference'', PyStr ''C3''),
                                   (''components'',
                                      PyDict [(''column_letter'', PyStr ''C''),
                                              (''row_number'', PyInt 3),
                                              (''sheet_name'', PyNone),
                                              (''column_number'', PyInt 3)])],
                           PyDict [(''reference'', PyStr ''D4''),
                                   (''components'',
                                      PyDict [(''column_letter'', PyStr ''D''),
                                              (''row_number'', PyInt 4),
                                              (''sheet_name'', PyNone),
                                              (''column_number'', PyInt 4)])]])])])\<rparr>"
  by (simp add: translate_def parse_def spec_env_simps node_simps number_to_letters.simps
      object_name_map_def spec_Function_from_dict_def update_reference_def
      Reference_from_dict_def update_column_number_def update_row_number_def)

section \<open>Construction\<close>

text \<open>
  C5, as the code has it. The constructor fails in exactly two cases, a formula that does
  not start with \<^verbatim>\<open>=\<close> and a formula whose parentheses do not balance; both failures
  are a \<^verbatim>\<open>ValueError\<close>, whose message is one of two fixed texts; a constructor that
  succeeds has stored the formula with and without the \<^verbatim>\<open>=\<close> and has built no node.
\<close>

theorem Parser_init_errors:
  "((\<exists>e. Parser_init E s = Inl e) \<longleftrightarrow> (take 1 s \<noteq> ''='' \<or> \<not> has_balanced_parentheses E s)) \<and>
   (\<forall>e. Parser_init E s = Inl e \<longrightarrow>
      e = ValueError ''Formula must start with an '=' sign.'' \<or>
      e = ValueError ''Unbalanced parentheses in formula.'') \<and>
   (\<forall>p. Parser_init E s = Inr p \<longrightarrow>
      formula p = drop 1 s \<and> full_formula p = s \<and> parsed_formula p = None)"
  by (auto simp: Parser_init_def)

text \<open>The two formulas the spec names fail, one for each reason, and a balanced formula
  with its \<^verbatim>\<open>=\<close> is accepted.\<close>

theorem Parser_init_errors_witness:
  "(\<exists>e. Parser_init spec_env ''=SUM(A1,B2'' = Inl e) \<and>
   \<not> has_balanced_parentheses spec_env ''=SUM(A1,B2'' \<and>
   (\<exists>e. Parser_init spec_env ''SUM(A1,B2)'' = Inl e) \<and>
   take 1 ''SUM(A1,B2)'' \<noteq> ''='' \<and>
   Parser_init spec_env ''=SUM(A1,B2)'' =
     Inr \<lparr>formula = ''SUM(A1,B2)'', full_formula = ''=SUM(A1,B2)'', parsed_formula = None\<rparr>"
  using Parser_init_errors [of spec_env "''=SUM(A1,B2''"]
    Parser_init_errors [of spec_env "''SUM(A1,B2)''"]
    Parser_init_errors [of spec_env "''=SUM(A1,B2)''"]
  by (simp add: Parser_init_def spec_env_simps)

text \<open>
  C5 as stated has the error carry the offending text. It does not: for each of the two
  formulas of the spec the error is the fixed message, in which the formula does not occur.
\<close>

theorem Parser_init_fixed_message_counterexample:
  "Parser_init spec_env ''SUM(A1,B2)'' =
     Inl (ValueError ''Formula must start with an '=' sign.'') \<and>
   \<not> is_substring ''SUM(A1,B2)'' ''Formula must start with an '=' sign.'' \<and>
   Parser_init spec_env ''=SUM(A1,B2'' = Inl (ValueError ''Unbalanced parentheses in formula.'') \<and>
   \<not> is_substring ''=SUM(A1,B2'' ''Unbalanced parentheses in formula.''"
  by (simp add: Parser_init_def spec_env_simps)

section \<open>Classification\<close>

text \<open>
  C7. A text that none of the six rules of \<^verbatim>\<open>parse_expression\<close> matches (after
  \<^verbatim>\<open>strip\<close>: not a function string, a range, a reference, a constant or an expression,
  and not a single character holding an operator) yields \<^verbatim>\<open>None\<close>, and no exception.
\<close>

theorem parse_expression_no_match:
  assumes "\<not> is_function_string E (strip s)"
    and "\<not> is_valid_range E (strip s)"
    and "\<not> is_valid_reference E (strip s)"
    and "\<not> is_valid_constant E (strip s)"
    and "\<not> is_valid_expression E (strip s)"
    and "\<not> (list_ex (\<lambda>op. is_substring op (strip s)) (Expression_operators E) \<and>
            length (strip s) = 1)"
  shows "parse_expression E (Suc depth) (PyStr s) = Inr PyNone"
  using assms by (simp add: Let_def)

theorem parse_expression_no_match_witness:
  "parse_expression spec_env (Suc 0) (PyStr '' @ '') = Inr PyNone"
  by (rule parse_expression_no_match) (simp_all add: spec_env_simps)

text \<open>
  C6 claims that classifying a node again returns an equal node. The branch of
  \<^verbatim>\<open>parse_expression\<close> for an Expression node passes the list of its parts to
  \<^verbatim>\<open>parse_expression\<close>, which handles a dictionary and a string only: every Expression
  node, as the string branch builds them, is classified again as \<^verbatim>\<open>None\<close>.
\<close>

theorem reparse_expression_node:
  "parse_expression E (Suc (Suc depth))
     (PyDict [(''expression'', cached), (''components'', PyList parts)]) = Inr PyNone"
  by (simp add: bind_def)

text \<open>A function node whose arguments are nodes other than function and expression nodes
  is classified again as itself.\<close>

lemma reparse_function_node_of_leaves:
  assumes "list_all (\<lambda>a. \<exists>kvs. a = PyDict kvs \<and> ''function'' \<notin> set (map fst kvs) \<and>
                       ''expression'' \<notin> set (map fst kvs)) args"
  shows "parse_expression E (Suc (Suc depth))
           (PyDict [(''function'', cached),
                    (''components'', PyDict [(''name'', name), (''arguments'', PyList args)])]) =
         Inr (PyDict [(''function'', cached),
                      (''components'', PyDict [(''name'', name), (''arguments'', PyList args)])])"
proof -
  from assms have "collect (map (parse_expression E (Suc depth)) args) = Inr args"
    by (induction args) auto
  then show ?thesis by (simp add: bind_def)
qed

text \<open>
  C4. The six rules of \<^verbatim>\<open>parse_expression\<close> are tried in the order function, range,
  reference, constant, expression, operator, and the first whose test accepts the stripped
  text decides the node: a rule's result is stated under the failure of the rules before it
  only, whatever the later tests would answer.
\<close>

theorem parse_expression_first_match:
  "(is_function_string E (strip s) \<longrightarrow>
      parse_expression E (Suc depth) (PyStr s) =
        bind (collect (map (\<lambda>arg. parse_expression E depth (PyStr arg))
                (Function_args E (strip s))))
          (\<lambda>arguments.
             Inr (PyDict [(''function'', PyStr (Function_str E (strip s))),
                          (''components'',
                             PyDict [(''name'', PyStr (Function_name E (strip s))),
                                     (''arguments'', PyList arguments)])]))) \<and>
   (\<not> is_function_string E (strip s) \<and> is_valid_range E (strip s) \<longrightarrow>
      parse_expression E (Suc depth) (PyStr s) = Inr (Range_to_dict E (strip s))) \<and>
   (\<not> is_function_string E (strip s) \<and> \<not> is_valid_range E (strip s) \<and>
    is_valid_reference E (strip s) \<longrightarrow>
      parse_expression E (Suc depth) (PyStr s) =
        bind (Reference_init E (strip s)) (\<lambda>ref. Inr (Reference_to_dict ref))) \<and>
   (\<not> is_function_string E (strip s) \<and> \<not> is_valid_range E (strip s) \<and>
    \<not> is_valid_reference E (strip s) \<and> is_valid_constant E (strip s) \<longrightarrow>
      parse_expression E (Suc depth) (PyStr s) = Inr (Constant_to_dict E (strip s))) \<and>
   (\<not> is_function_string E (strip s) \<and> \<not> is_valid_range E (strip s) \<and>
    \<not> is_valid_reference E (strip s) \<and> \<not> is_valid_constant E (strip s) \<and>
    is_valid_expression E (strip s) \<longrightarrow>
      parse_expression E (Suc depth) (PyStr s) =
        bind (collect (map (\<lambda>part. parse_expression E depth (PyStr part))
                (Expression_expression E (strip s))))
          (\<lambda>parts.
             Inr (PyDict [(''expression'', PyStr (Expression_str E (strip s))),
                          (''components'', PyList parts)]))) \<and>
   (\<not> is_function_string E (strip s) \<and> \<not> is_valid_range E (strip s) \<and>
    \<not> is_valid_reference E (strip s) \<and> \<not> is_valid_constant E (strip s) \<and>
    \<not> is_valid_expression E (strip s) \<and>
    list_ex (\<lambda>op. is_substring op (strip s)) (Expression_operators E) \<and>
    length (strip s) = 1 \<longrightarrow>
      parse_expression E (Suc depth) (PyStr s) = Inr (PyDict [(''operator'', PyStr (strip s))]))"
  by (simp add: Let_def)

text \<open>One text for each rule, with the recognizers of the spec.\<close>

theorem parse_expression_first_match_witness:
  "parse_expression spec_env (Suc (Suc 0)) (PyStr ''SUM(7)'') =
     Inr (PyDict [(''function'', PyStr ''SUM(7)''),
                  (''components'',
                     PyDict [(''name'', PyStr ''SUM''),
                             (''arguments'', PyList [PyDict [(''constant'', PyInt 7)]])])]) \<and>
   parse_expression spec_env (Suc 0) (PyStr ''A1:B2'') = Inr (spec_Range_to_dict ''A1:B2'') \<and>
   parse_expression spec_env (Suc 0) (PyStr '' B2 '') =
     Inr (Reference_to_dict \<lparr>sheet_name = None, column_letter = ''B'', row_number = 2,
            column_number = 2\<rparr>) \<and>
   parse_expression spec_env (Suc 0) (PyStr ''TRUE'') = Inr (PyDict [(''constant'', PyBool True)]) \<and>
   parse_expression spec_env (Suc (Suc 0)) (PyStr ''1 + 2'') =
     Inr (PyDict [(''expression'', PyStr ''1 + 2''),
                  (''components'',
                     PyList [PyDict [(''constant'', PyInt 1)], PyDict [(''operator'', PyStr ''+'')],
                             PyDict [(''constant'', PyInt 2)]])]) \<and>
   parse_expression spec_env (Suc 0) (PyStr ''+'') = Inr (PyDict [(''operator'', PyStr ''+'')])"
proof (intro conjI)
  show "parse_expression spec_env (Suc (Suc 0)) (PyStr ''SUM(7)'') =
     Inr (PyDict [(''function'', PyStr ''SUM(7)''),
                  (''components'',
                     PyDict [(''name'', PyStr ''SUM''),
                             (''arguments'', PyList [PyDict [(''constant'', PyInt 7)]])])])"
    using parse_expression_first_match [where E = spec_env and s = "''SUM(7)''" and depth = "Suc 0"]
    by (simp add: spec_env_simps node_simps)
  show "parse_expression spec_env (Suc 0) (PyStr ''A1:B2'') = Inr (spec_Range_to_dict ''A1:B2'')"
    using parse_expression_first_match [where E = spec_env and s = "''A1:B2''" and depth = 0]
    by (simp add: spec_env_simps)
  show "parse_expression spec_env (Suc 0) (PyStr '' B2 '') =
     Inr (Reference_to_dict \<lparr>sheet_name = None, column_letter = ''B'', row_number = 2,
            column_number = 2\<rparr>)"
    using parse_expression_first_match [where E = spec_env and s = "'' B2 ''" and depth = 0]
    by (simp add: spec_env_simps)
  show "parse_expression spec_env (Suc 0) (PyStr ''TRUE'') =
     Inr (PyDict [(''constant'', PyBool True)])"
    using parse_expression_first_match [where E = spec_env and s = "''TRUE''" and depth = 0]
    by (simp add: spec_env_simps node_simps)
  show "parse_expression spec_env (Suc (Suc 0)) (PyStr ''1 + 2'') =
     Inr (PyDict [(''expression'', PyStr ''1 + 2''),
                  (''components'',
                     PyList [PyDict [(''constant'', PyInt 1)], PyDict [(''operator'', PyStr ''+'')],
                             PyDict [(''constant'', PyInt 2)]])])"
    using parse_expression_first_match [where E = spec_env and s = "''1 + 2''" and depth = "Suc 0"]
    by (simp add: spec_env_simps node_simps)
  show "parse_expression spec_env (Suc 0) (PyStr ''+'') = Inr (PyDict [(''operator'', PyStr ''+'')])"
    using parse_expression_first_match [where E = spec_env and s = "''+''" and depth = 0]
    by (simp add: spec_env_simps)
qed

section \<open>Translation\<close>

text \<open>
  C3. \<^verbatim>\<open>translate\<close> changes the attribute \<^verbatim>\<open>parsed_formula\<close> and nothing else: the
  stored formula texts are the same after it, and \<^verbatim>\<open>parse\<close>, \<^verbatim>\<open>to_dict\<close>,
  \<^verbatim>\<open>reconstructed_formula\<close> and \<^verbatim>\<open>__str__\<close>, which parse the stored text again at
  each call, give after a translation what they gave before it.
\<close>

theorem translate_frame:
  assumes "translate E depth self from_cell to_cell = Inr self'"
  shows "self' = self\<lparr>parsed_formula := parsed_formula self'\<rparr> \<and>
         formula self' = formula self \<and> full_formula self' = full_formula self \<and>
         parse E d self' = parse E d self \<and>
         to_dict E d self' = to_dict E d self \<and>
         reconstructed_formula E d self' = reconstructed_formula E d self \<and>
         Parser_str json_dumps E d self' = Parser_str json_dumps E d self"
proof -
  from assms obtain t where "self' = self\<lparr>parsed_formula := Some t\<rparr>"
    by (auto simp: translate_def bind_def Let_def split: sum.splits)
  then show ?thesis
    by (simp add: parse_def to_dict_def reconstructed_formula_def Parser_str_def)
qed

theorem translate_frame_witness:
  "\<exists>self'.
     translate spec_env (Suc (Suc (Suc (Suc 0))))
       \<lparr>formula = ''SUM(A1, B2)'', full_formula = ''=SUM(A1, B2)'', parsed_formula = None\<rparr>
       ''A1'' ''C3'' = Inr self' \<and>
     parsed_formula self' \<noteq> None \<and>
     formula self' = ''SUM(A1, B2)'' \<and> full_formula self' = ''=SUM(A1, B2)'' \<and>
     to_dict spec_env (Suc (Suc 0)) self' =
       to_dict spec_env (Suc (Suc 0))
         \<lparr>formula = ''SUM(A1, B2)'', full_formula = ''=SUM(A1, B2)'', parsed_formula = None\<rparr> \<and>
     reconstructed_formula spec_env (Suc (Suc 0)) self' =
       reconstructed_formula spec_env (Suc (Suc 0))
         \<lparr>formula = ''SUM(A1, B2)'', full_formula = ''=SUM(A1, B2)'', parsed_formula = None\<rparr>"
  using translate_frame [OF translate_SUM_example [of 0], of "Suc (Suc 0)"]
    translate_SUM_example [of 0]
  by simp

text \<open>The comparison at the end of the module reads \<^verbatim>\<open>to_dict()\<close> after the
  translation: it is still the tree of the stored text, with the arguments A1 and B2.\<close>

lemma to_dict_after_translate_SUM_example:
  "bind (translate spec_env (Suc (Suc (Suc (Suc depth))))
           \<lparr>formula = ''SUM(A1, B2)'', full_formula = ''=SUM(A1, B2)'', parsed_formula = None\<rparr>
           ''A1'' ''C3'')
     (to_dict spec_env (Suc (Suc depth'))) =
   Inr (PyDict
          [(''function'', PyStr ''SUM(A1, B2)''),
           (''components'',
              PyDict [(''name'', PyStr ''SUM''),
                      (''arguments'',
                         PyList
                          [PyDict [(''reference'', PyStr ''A1''),
                                   (''components'',
                                      PyDict [(''column_letter'', PyStr ''A''),
                                              (''row_number'', PyInt 1),
                                              (''sheet_name'', PyNone),
                                              (''column_number'', PyInt 1)])],
                           PyDict [(''reference'', PyStr ''B2''),
                                   (''components'',
                                      PyDict [(''column_letter'', PyStr ''B''),
                                              (''row_number'', PyInt 2),
                                              (''sheet_name'', PyNone),
                                              (''column_number'', PyInt 2)])]])])])"
  unfolding translate_SUM_example
  by (simp add: to_dict_def parse_def spec_env_simps node_simps)

text \<open>
  C9. \<^verbatim>\<open>recurse_translate\<close> returns a node with the key \<^verbatim>\<open>operator\<close> or
  \<^verbatim>\<open>constant\<close> as it is. Of a Reference node, whose components are the structured
  form of a reference \<open>r\<close>, it changes the two entries \<^verbatim>\<open>reference\<close> and
  \<^verbatim>\<open>components\<close>: the column and row numbers are increased by the shifts, the column
  letters are those of the new column number, the sheet name is that of \<open>r\<close>, and the
  string under \<^verbatim>\<open>reference\<close> is the string form of the new fields.
\<close>

theorem recurse_translate_nodes:
  "(''operator'' \<in> set (map fst kvs) \<or> ''constant'' \<in> set (map fst kvs) \<longrightarrow>
      recurse_translate E col_shift row_shift (Suc depth) (PyDict kvs) = Inr (PyDict kvs)) \<and>
   (''operator'' \<notin> set (map fst kvs) \<and> ''constant'' \<notin> set (map fst kvs) \<and>
    ''reference'' \<in> set (map fst kvs) \<and>
    map_of kvs ''components'' = Some (Reference_components r) \<longrightarrow>
      recurse_translate E col_shift row_shift (Suc depth) (PyDict kvs) =
        Inr (PyDict
          (AList.update ''components''
             (Reference_components
                \<lparr>sheet_name = sheet_name r,
                 column_letter = number_to_letters (column_number r + col_shift),
                 row_number = row_number r + row_shift,
                 column_number = column_number r + col_shift\<rparr>)
             (AList.update ''reference''
                (PyStr (Reference_str
                   \<lparr>sheet_name = sheet_name r,
                    column_letter = number_to_letters (column_number r + col_shift),
                    row_number = row_number r + row_shift,
                    column_number = column_number r + col_shift\<rparr>))
                kvs))))"
proof (intro conjI impI)
  assume "''operator'' \<in> set (map fst kvs) \<or> ''constant'' \<in> set (map fst kvs)"
  then show "recurse_translate E col_shift row_shift (Suc depth) (PyDict kvs) = Inr (PyDict kvs)"
    by (auto simp: bind_def)
next
  let ?r' = "\<lparr>sheet_name = sheet_name r,
              column_letter = number_to_letters (column_number r + col_shift),
              row_number = row_number r + row_shift,
              column_number = column_number r + col_shift\<rparr>"
  assume a: "''operator'' \<notin> set (map fst kvs) \<and> ''constant'' \<notin> set (map fst kvs) \<and>
    ''reference'' \<in> set (map fst kvs) \<and>
    map_of kvs ''components'' = Some (Reference_components r)"
  have upd: "update_reference col_shift row_shift (Reference_components r) =
      Inr (Reference_to_dict ?r')"
    by (cases r) (simp add: update_reference_def Reference_from_dict_components bind_def
        update_column_number_def update_row_number_def Let_def)
  from a show "recurse_translate E col_shift row_shift (Suc depth) (PyDict kvs) =
      Inr (PyDict (AList.update ''components'' (Reference_components ?r')
        (AList.update ''reference'' (PyStr (Reference_str ?r')) kvs)))"
    by (simp add: bind_def upd Reference_to_dict_components Reference_from_dict_components)
qed

text \<open>An operator, a constant, and the reference \<^verbatim>\<open>'Data'!B2\<close> moved by two columns and
  two rows.\<close>

theorem recurse_translate_nodes_witness:
  "recurse_translate spec_env 2 2 (Suc 0) (PyDict [(''operator'', PyStr ''+'')]) =
     Inr (PyDict [(''operator'', PyStr ''+'')]) \<and>
   recurse_translate spec_env 2 2 (Suc 0) (PyDict [(''constant'', PyInt 10)]) =
     Inr (PyDict [(''constant'', PyInt 10)]) \<and>
   recurse_translate spec_env 2 2 (Suc 0)
     (PyDict [(''reference'', PyStr (CHR 0x27 # ''Data'' @ [CHR 0x27] @ ''!B2'')),
              (''components'',
                 PyDict [(''column_letter'', PyStr ''B''), (''row_number'', PyInt 2),
                         (''sheet_name'', PyStr ''Data''), (''column_number'', PyInt 2)])]) =
     Inr (PyDict [(''reference'', PyStr (CHR 0x27 # ''Data'' @ [CHR 0x27] @ ''!D4'')),
              (''components'',
                 PyDict [(''column_letter'', PyStr ''D''), (''row_number'', PyInt 4),
                         (''sheet_name'', PyStr ''Data''), (''column_number'', PyInt 4)])])"
  using recurse_translate_nodes [where kvs = "[(''operator'', PyStr ''+'')]" and E = spec_env
      and col_shift = 2 and row_shift = 2 and depth = 0]
    recurse_translate_nodes [where kvs = "[(''constant'', PyInt 10)]" and E = spec_env
      and col_shift = 2 and row_shift = 2 and depth = 0]
    recurse_translate_nodes [where kvs =
      "[(''reference'', PyStr (CHR 0x27 # ''Data'' @ [CHR 0x27] @ ''!B2'')),
        (''components'',
           PyDict [(''column_letter'', PyStr ''B''), (''row_number'', PyInt 2),
                   (''sheet_name'', PyStr ''Data''), (''column_number'', PyInt 2)])]"
      and r = "\<lparr>sheet_name = Some ''Data'', column_letter = ''B'', row_number = 2,
        column_number = 2\<rparr>" and E = spec_env and col_shift = 2 and row_shift = 2
      and depth = 0]
  by (simp add: node_simps number_to_letters.simps)










section \<open>Reconstruction\<close>

lemma collect_Inr: "collect (map Inr xs) = Inr xs"
  by (induction xs) simp_all

lemma collect_strs:
  "map f xs = map (\<lambda>s. Inr (PyStr s)) strs \<Longrightarrow> collect (map f xs) = Inr (map PyStr strs)"
  using collect_Inr [of "map PyStr strs"] by (simp add: comp_def)

lemma py_join_strs: "py_join sep (map PyStr strs) = Inr (join sep strs)"
proof -
  have "those (map str_value (map PyStr strs)) = Some strs"
    by (induction strs) simp_all
  then show ?thesis by (simp add: py_join_def)
qed

lemma json_to_string_cached:
  assumes "key \<in> set [''function'', ''reference'', ''range'', ''expression'']"
    and "key \<in> set (map fst kvs)"
  shows "json_to_string depth (PyDict (AList.update key cached kvs)) =
         json_to_string depth (PyDict kvs)"
proof (cases depth)
  case 0
  then show ?thesis by simp
next
  case (Suc d)
  from assms(2) have keys: "fst ` set (AList.update key cached kvs) = fst ` set kvs"
    by (auto simp: dom_update)
  from assms(1) have look: "map_of (AList.update key cached kvs) k = map_of kvs k"
    if "k \<in> set [''components'', ''operator'', ''constant'']" for k
    using that by (auto simp: update_conv')
  show ?thesis
    unfolding Suc by (simp add: keys look bind_def)
qed

text \<open>
  \<^verbatim>\<open>json_to_string\<close> reads the kind of a node off its keys and never reads the string
  cached under the tag of a function, reference, range or expression node: another value
  there gives the same result. A function node is rendered as its name and, in
  parentheses, the renderings of its arguments joined by a comma and a space; a Reference
  node as its letters and row, after the quoted sheet name and \<^verbatim>\<open>!\<close> when there is one;
  an expression node as the renderings of its parts joined by a space, always inside one
  pair of parentheses; an operator node as its symbol; a constant node as the string of its
  value.
\<close>

lemma json_to_string_by_kind:
  "(key \<in> set [''function'', ''reference'', ''range'', ''expression''] \<and>
    key \<in> set (map fst kvs) \<longrightarrow>
      json_to_string depth (PyDict (AList.update key cached kvs)) =
      json_to_string depth (PyDict kvs)) \<and>
   (''function'' \<in> set (map fst kvs) \<and> map_of kvs ''components'' = Some func \<and>
    py_getitem func ''name'' = Inr (PyStr name) \<and>
    py_getitem func ''arguments'' = Inr (PyList args) \<and>
    map (json_to_string depth) args = map (\<lambda>s. Inr (PyStr s)) strs \<longrightarrow>
      json_to_string (Suc depth) (PyDict kvs) =
      Inr (PyStr (name @ ''('' @ join '', '' strs @ '')''))) \<and>
   (''function'' \<notin> set (map fst kvs) \<and> ''reference'' \<in> set (map fst kvs) \<and>
    map_of kvs ''components'' = Some (Reference_components r) \<longrightarrow>
      json_to_string (Suc depth) (PyDict kvs) = Inr (PyStr (Reference_str r))) \<and>
   (''function'' \<notin> set (map fst kvs) \<and> ''reference'' \<notin> set (map fst kvs) \<and>
    ''range'' \<notin> set (map fst kvs) \<and> ''expression'' \<in> set (map fst kvs) \<and>
    map_of kvs ''components'' = Some (PyList parts) \<and>
    map (json_to_string depth) parts = map (\<lambda>s. Inr (PyStr s)) strs \<longrightarrow>
      json_to_string (Suc depth) (PyDict kvs) = Inr (PyStr (''('' @ join '' '' strs @ '')''))) \<and>
   (''function'' \<notin> set (map fst kvs) \<and> ''reference'' \<notin> set (map fst kvs) \<and>
    ''range'' \<notin> set (map fst kvs) \<and> ''expression'' \<notin> set (map fst kvs) \<and>
    map_of kvs ''operator'' = Some symbol \<longrightarrow>
      json_to_string (Suc depth) (PyDict kvs) = Inr symbol) \<and>
   (''function'' \<notin> set (map fst kvs) \<and> ''reference'' \<notin> set (map fst kvs) \<and>
    ''range'' \<notin> set (map fst kvs) \<and> ''expression'' \<notin> set (map fst kvs) \<and>
    ''operator'' \<notin> set (map fst kvs) \<and> map_of kvs ''constant'' = Some v \<longrightarrow>
      json_to_string (Suc depth) (PyDict kvs) = Inr (PyStr (py_str v)))"
proof (intro conjI impI)
  assume "key \<in> set [''function'', ''reference'', ''range'', ''expression''] \<and>
    key \<in> set (map fst kvs)"
  then show "json_to_string depth (PyDict (AList.update key cached kvs)) =
      json_to_string depth (PyDict kvs)"
    using json_to_string_cached by blast
next
  assume "''function'' \<in> set (map fst kvs) \<and> map_of kvs ''components'' = Some func \<and>
    py_getitem func ''name'' = Inr (PyStr name) \<and>
    py_getitem func ''arguments'' = Inr (PyList args) \<and>
    map (json_to_string depth) args = map (\<lambda>s. Inr (PyStr s)) strs"
  then show "json_to_string (Suc depth) (PyDict kvs) =
      Inr (PyStr (name @ ''('' @ join '', '' strs @ '')''))"
    by (simp add: bind_def collect_strs py_join_strs)
next
  assume a: "''function'' \<notin> set (map fst kvs) \<and> ''reference'' \<in> set (map fst kvs) \<and>
    map_of kvs ''components'' = Some (Reference_components r)"
  then show "json_to_string (Suc depth) (PyDict kvs) = Inr (PyStr (Reference_str r))"
    by (cases r) (auto simp: bind_def Reference_components_def Reference_str_def str_int_def
        split: option.splits)
next
  assume "''function'' \<notin> set (map fst kvs) \<and> ''reference'' \<notin> set (map fst kvs) \<and>
    ''range'' \<notin> set (map fst kvs) \<and> ''expression'' \<in> set (map fst kvs) \<and>
    map_of kvs ''components'' = Some (PyList parts) \<and>
    map (json_to_string depth) parts = map (\<lambda>s. Inr (PyStr s)) strs"
  then show "json_to_string (Suc depth) (PyDict kvs) =
      Inr (PyStr (''('' @ join '' '' strs @ '')''))"
    by (simp add: bind_def collect_strs py_join_strs)
next
  assume "''function'' \<notin> set (map fst kvs) \<and> ''reference'' \<notin> set (map fst kvs) \<and>
    ''range'' \<notin> set (map fst kvs) \<and> ''expression'' \<notin> set (map fst kvs) \<and>
    map_of kvs ''operator'' = Some symbol"
  moreover from this have "''operator'' \<in> set (map fst kvs)"
    by (auto dest: map_of_SomeD intro: rev_image_eqI)
  ultimately show "json_to_string (Suc depth) (PyDict kvs) = Inr symbol"
    by (simp add: bind_def)
next
  assume "''function'' \<notin> set (map fst kvs) \<and> ''reference'' \<notin> set (map fst kvs) \<and>
    ''range'' \<notin> set (map fst kvs) \<and> ''expression'' \<notin> set (map fst kvs) \<and>
    ''operator'' \<notin> set (map fst kvs) \<and> map_of kvs ''constant'' = Some v"
  moreover from this have "''constant'' \<in> set (map fst kvs)"
    by (auto dest: map_of_SomeD intro: rev_image_eqI)
  ultimately show "json_to_string (Suc depth) (PyDict kvs) = Inr (PyStr (py_str v))"
    by (simp add: bind_def)
qed

text \<open>A node of each of these kinds; the cached string of the expression node has neither
  the parentheses nor the spaces of its rendering.\<close>

lemma json_to_string_by_kind_examples:
  "json_to_string (Suc (Suc 0))
     (PyDict [(''function'', PyStr ''stale''),
              (''components'',
                 PyDict [(''name'', PyStr ''SUM''),
                         (''arguments'', PyList [PyDict [(''constant'', PyInt 1)],
                                                 PyDict [(''operator'', PyStr ''A1'')]])])]) =
   json_to_string (Suc (Suc 0))
     (PyDict [(''function'', PyStr ''SUM(1, A1)''),
              (''components'',
                 PyDict [(''name'', PyStr ''SUM''),
                         (''arguments'', PyList [PyDict [(''constant'', PyInt 1)],
                                                 PyDict [(''operator'', PyStr ''A1'')]])])]) \<and>
   json_to_string (Suc (Suc 0))
     (PyDict [(''function'', PyStr ''SUM(1, A1)''),
              (''components'',
                 PyDict [(''name'', PyStr ''SUM''),
                         (''arguments'', PyList [PyDict [(''constant'', PyInt 1)],
                                                 PyDict [(''operator'', PyStr ''A1'')]])])]) =
     Inr (PyStr ''SUM(1, A1)'') \<and>
   json_to_string (Suc 0)
     (PyDict [(''reference'', PyStr ''B2''),
              (''components'',
                 Reference_components \<lparr>sheet_name = Some ''Data'', column_letter = ''B'',
                   row_number = 2, column_number = 2\<rparr>)]) =
     Inr (PyStr (CHR 0x27 # ''Data'' @ [CHR 0x27] @ ''!B2'')) \<and>
   json_to_string (Suc (Suc 0))
     (PyDict [(''expression'', PyStr ''1+2''),
              (''components'',
                 PyList [PyDict [(''constant'', PyInt 1)], PyDict [(''operator'', PyStr ''+'')],
                         PyDict [(''constant'', PyInt 2)]])]) =
     Inr (PyStr ''(1 + 2)'') \<and>
   json_to_string (Suc 0) (PyDict [(''operator'', PyStr ''+'')]) = Inr (PyStr ''+'') \<and>
   json_to_string (Suc 0) (PyDict [(''constant'', PyInt 10)]) = Inr (PyStr ''10'')"
proof (intro conjI)
  show "json_to_string (Suc (Suc 0))
     (PyDict [(''function'', PyStr ''stale''),
              (''components'',
                 PyDict [(''name'', PyStr ''SUM''),
                         (''arguments'', PyList [PyDict [(''constant'', PyInt 1)],
                                                 PyDict [(''operator'', PyStr ''A1'')]])])]) =
   json_to_string (Suc (Suc 0))
     (PyDict [(''function'', PyStr ''SUM(1, A1)''),
              (''components'',
                 PyDict [(''name'', PyStr ''SUM''),
                         (''arguments'', PyList [PyDict [(''constant'', PyInt 1)],
                                                 PyDict [(''operator'', PyStr ''A1'')]])])])"
    using json_to_string_by_kind [where key = "''function''" and cached = "PyStr ''stale''"
        and depth = "Suc (Suc 0)" and kvs =
        "[(''function'', PyStr ''SUM(1, A1)''),
          (''components'',
             PyDict [(''name'', PyStr ''SUM''),
                     (''arguments'', PyList [PyDict [(''constant'', PyInt 1)],
                                             PyDict [(''operator'', PyStr ''A1'')]])])]"]
    by simp
  show "json_to_string (Suc (Suc 0))
     (PyDict [(''function'', PyStr ''SUM(1, A1)''),
              (''components'',
                 PyDict [(''name'', PyStr ''SUM''),
                         (''arguments'', PyList [PyDict [(''constant'', PyInt 1)],
                                                 PyDict [(''operator'', PyStr ''A1'')]])])]) =
     Inr (PyStr ''SUM(1, A1)'')"
    using json_to_string_by_kind [where depth = "Suc 0" and name = "''SUM''"
        and func = "PyDict [(''name'', PyStr ''SUM''),
                     (''arguments'', PyList [PyDict [(''constant'', PyInt 1)],
                                             PyDict [(''operator'', PyStr ''A1'')]])]"
        and args = "[PyDict [(''constant'', PyInt 1)], PyDict [(''operator'', PyStr ''A1'')]]"
        and strs = "[''1'', ''A1'']" and kvs =
        "[(''function'', PyStr ''SUM(1, A1)''),
          (''components'',
             PyDict [(''name'', PyStr ''SUM''),
                     (''arguments'', PyList [PyDict [(''constant'', PyInt 1)],
                                             PyDict [(''operator'', PyStr ''A1'')]])])]"]
    by (simp add: bind_def node_simps)
  show "json_to_string (Suc 0)
     (PyDict [(''reference'', PyStr ''B2''),
              (''components'',
                 Reference_components \<lparr>sheet_name = Some ''Data'', column_letter = ''B'',
                   row_number = 2, column_number = 2\<rparr>)]) =
     Inr (PyStr (CHR 0x27 # ''Data'' @ [CHR 0x27] @ ''!B2''))"
    using json_to_string_by_kind [where depth = 0
        and r = "\<lparr>sheet_name = Some ''Data'', column_letter = ''B'', row_number = 2,
                  column_number = 2\<rparr>"
        and kvs = "[(''reference'', PyStr ''B2''),
              (''components'',
                 Reference_components \<lparr>sheet_name = Some ''Data'', column_letter = ''B'',
                   row_number = 2, column_number = 2\<rparr>)]"]
    by (simp add: Reference_str_def str_int_def str_nat.simps)
  show "json_to_string (Suc (Suc 0))
     (PyDict [(''expression'', PyStr ''1+2''),
              (''components'',
                 PyList [PyDict [(''constant'', PyInt 1)], PyDict [(''operator'', PyStr ''+'')],
                         PyDict [(''constant'', PyInt 2)]])]) =
     Inr (PyStr ''(1 + 2)'')"
    using json_to_string_by_kind [where depth = "Suc 0"
        and parts = "[PyDict [(''constant'', PyInt 1)], PyDict [(''operator'', PyStr ''+'')],
                         PyDict [(''constant'', PyInt 2)]]"
        and strs = "[''1'', ''+'', ''2'']"
        and kvs = "[(''expression'', PyStr ''1+2''),
              (''components'',
                 PyList [PyDict [(''constant'', PyInt 1)], PyDict [(''operator'', PyStr ''+'')],
                         PyDict [(''constant'', PyInt 2)]])]"]
    by (simp add: bind_def node_simps)
  show "json_to_string (Suc 0) (PyDict [(''operator'', PyStr ''+'')]) = Inr (PyStr ''+'')"
    using json_to_string_by_kind [where depth = 0 and symbol = "PyStr ''+''"
        and kvs = "[(''operator'', PyStr ''+'')]"]
    by simp
  show "json_to_string (Suc 0) (PyDict [(''constant'', PyInt 10)]) = Inr (PyStr ''10'')"
    using json_to_string_by_kind [where depth = 0 and v = "PyInt 10"
        and kvs = "[(''constant'', PyInt 10)]"]
    by (simp add: node_simps)
qed

text \<open>
  C8 has a range node rendered as \<^verbatim>\<open>start:end\<close>. For a range node
  \<^verbatim>\<open>json_to_string\<close> formats the two components with \<^verbatim>\<open>str\<close> and does not call
  itself on them, as it does on the arguments of a function and on the parts of an
  expression. The endpoints of a range node are Reference nodes, so the result is the two
  dictionaries as Python prints them: for the node of \<^verbatim>\<open>A1:B2\<close> it is not
  \<^verbatim>\<open>A1:B2\<close>.
\<close>

theorem json_to_string_range_node:
  "json_to_string (Suc depth)
     (PyDict [(''range'', cached),
              (''components'',
                 PyDict [(''start'', Reference_to_dict a), (''end'', Reference_to_dict b)])]) =
     Inr (PyStr (py_repr (Reference_to_dict a) @ '':'' @ py_repr (Reference_to_dict b))) \<and>
   json_to_string (Suc depth) (spec_Range_to_dict ''A1:B2'') =
     Inr (PyStr (''{'reference': 'A1', 'components': {'column_letter': 'A', 'row_number': 1, 'sheet_name': None, 'column_number': 1}}:{'reference': 'B2', 'components': {'column_letter': 'B', 'row_number': 2, 'sheet_name': None, 'column_number': 2}}'')) \<and>
   json_to_string (Suc depth) (spec_Range_to_dict ''A1:B2'') \<noteq> Inr (PyStr ''A1:B2'')"
proof -
  have general: "json_to_string (Suc depth)
     (PyDict [(''range'', cached),
              (''components'',
                 PyDict [(''start'', Reference_to_dict a), (''end'', Reference_to_dict b)])]) =
     Inr (PyStr (py_repr (Reference_to_dict a) @ '':'' @ py_repr (Reference_to_dict b)))"
    by (simp add: bind_def Reference_to_dict_def)
  have node: "spec_Range_to_dict ''A1:B2'' =
      PyDict [(''range'', PyStr ''A1:B2''),
              (''components'',
                 PyDict [(''start'', Reference_to_dict \<lparr>sheet_name = None, column_letter = ''A'',
                            row_number = 1, column_number = 1\<rparr>),
                         (''end'', Reference_to_dict \<lparr>sheet_name = None, column_letter = ''B'',
                            row_number = 2, column_number = 2\<rparr>)])]"
    by (simp add: spec_Range_to_dict_def Range_node_def spec_env_simps Reference_str_def
        str_int_def str_nat.simps)
  have concrete: "json_to_string (Suc depth) (spec_Range_to_dict ''A1:B2'') =
     Inr (PyStr (''{'reference': 'A1', 'components': {'column_letter': 'A', 'row_number': 1, 'sheet_name': None, 'column_number': 1}}:{'reference': 'B2', 'components': {'column_letter': 'B', 'row_number': 2, 'sheet_name': None, 'column_number': 2}}''))"
    unfolding node
    by (simp add: bind_def node_simps repr_str_def repr_char_def Let_def)
  from general concrete show ?thesis by simp
qed



section \<open>Counting keys\<close>

lemma add_count_add: "add_count n (add_count m x) = add_count (m + n) x"
  by (simp add: add_count_def split: option.splits)

lemma count_keys_fold:
  "count_keys A item kc =
     fold (\<lambda>kv kc. count_value A (snd kv)
        (if fst kv \<in> A then AList.update (fst kv) (keys_count_get kc (fst kv) 0 + 1) kc else kc))
       item kc"
  by (subst count_keys.simps) (simp add: count_value_def Let_def)

lemma map_of_bump:
  "map_of (if key \<in> A then AList.update key (keys_count_get kc key 0 + 1) kc else kc) k =
     add_count (if key = k \<and> k \<in> A then 1 else 0) (map_of kc k)"
  by (auto simp: add_count_def keys_count_get_def update_conv' split: option.splits)

lemma count_value_reached:
  "map_of (count_value A v kc) k = add_count (if k \<in> A then reached k v else 0) (map_of kc k)"
proof (induction v arbitrary: kc)
  case (PyDict kvs)
  have step: "map_of (fold (\<lambda>kv kc. count_value A (snd kv)
        (if fst kv \<in> A then AList.update (fst kv) (keys_count_get kc (fst kv) 0 + 1) kc else kc))
       ys kc) k =
      add_count (if k \<in> A then length (filter (\<lambda>kv. fst kv = k) ys) +
                   sum_list (map (\<lambda>kv. reached k (snd kv)) ys) else 0) (map_of kc k)"
    if "set ys \<subseteq> set kvs" for ys kc
    using that
  proof (induction ys arbitrary: kc)
    case Nil
    then show ?case by (simp add: add_count_def)
  next
    case (Cons y ys)
    from Cons.prems have y: "y \<in> set kvs" and ys: "set ys \<subseteq> set kvs" by auto
    have sy: "snd y \<in> Basic_BNFs.snds y"
      by (cases y) simp
    show ?case
      by (simp add: Cons.IH [OF ys] PyDict.IH [OF y sy] map_of_bump add_count_add ac_simps)
  qed
  show ?case
    using step [of kvs kc] by (simp add: count_value_def count_keys_fold)
next
  case (PyList xs)
  have step: "map_of (fold (\<lambda>sub_item kc2.
             (case sub_item of PyDict sub \<Rightarrow> count_keys A sub kc2 | _ \<Rightarrow> kc2)) ys kc) k =
      add_count (if k \<in> A
                 then sum_list (map (reached k) (filter (\<lambda>x. \<not> isinstance_list x) ys)) else 0)
        (map_of kc k)"
    if "set ys \<subseteq> set xs" for ys kc
    using that
  proof (induction ys arbitrary: kc)
    case Nil
    then show ?case by (simp add: add_count_def)
  next
    case (Cons y ys)
    from Cons.prems have y: "y \<in> set xs" and ys: "set ys \<subseteq> set xs" by auto
    show ?case
    proof (cases y)
      case (PyDict sub)
      have "count_keys A sub kc = count_value A y kc"
        by (simp add: PyDict count_value_def)
      then show ?thesis
        using PyList.IH [OF y, of kc]
        by (simp add: PyDict Cons.IH [OF ys] add_count_add ac_simps)
    qed (simp_all add: Cons.IH [OF ys])
  qed
  show ?case
    using step [of xs kc] by (simp add: count_value_def)
qed (simp_all add: count_value_def add_count_def)

lemma reached_occurrences: "lists_of_nodes v \<Longrightarrow> reached key v = occurrences key v"
proof (induction v)
  case (PyDict kvs)
  have "reached key (snd kv) = occurrences key (snd kv)" if "kv \<in> set kvs" for kv
  proof -
    have "snd kv \<in> Basic_BNFs.snds kv" by (cases kv) simp
    moreover from that PyDict.prems have "lists_of_nodes (snd kv)"
      by (auto simp: list_all_iff)
    ultimately show ?thesis using PyDict.IH that by blast
  qed
  then show ?case by (simp cong: map_cong)
next
  case (PyList xs)
  from PyList.prems have "filter (\<lambda>x. \<not> isinstance_list x) xs = xs"
    by (simp add: list_all_iff)
  moreover have "reached key x = occurrences key x" if "x \<in> set xs" for x
    using PyList that by (auto simp: list_all_iff)
  ultimately show ?case by (simp cong: map_cong)
qed simp_all

lemma collect_eq_Inr: "collect rs = Inr ys \<longleftrightarrow> rs = map Inr ys"
proof
  show "collect rs = Inr ys" if "rs = map Inr ys"
    using that by (simp add: collect_Inr)
  show "rs = map Inr ys" if "collect rs = Inr ys"
    using that by (induction rs arbitrary: ys) (auto split: sum.splits)
qed

lemma Reference_to_dict_lists_of_nodes:
  "lists_of_nodes (Reference_to_dict r) \<and> \<not> isinstance_list (Reference_to_dict r)"
  by (simp add: Reference_to_dict_def Reference_components_def split: option.splits)

lemma count_value_simps:
  "count_value A (PyDict sub) kc = count_keys A sub kc"
  "count_value A (PyList xs) kc =
     fold (\<lambda>sub_item kc2.
        (case sub_item of PyDict sub \<Rightarrow> count_keys A sub kc2 | _ \<Rightarrow> kc2)) xs kc"
  "count_value A PyNone kc = kc"
  "count_value A (PyBool b) kc = kc"
  "count_value A (PyInt i) kc = kc"
  "count_value A (PyFloat f) kc = kc"
  "count_value A (PyStr s) kc = kc"
  by (simp_all add: count_value_def)

text \<open>
  C10, as the code has it. \<^verbatim>\<open>get_all_keys_with_counts\<close> returns the dictionary
  \<^verbatim>\<open>keys_count\<close>, a new one when none is passed and the caller's own, updated,
  otherwise. The entry of a key has grown by the number of occurrences that
  \<^verbatim>\<open>count_keys\<close> comes to, for each of the seven keys function, arguments, expression,
  range, reference, constant and operator, or for the label alone when a label that is not
  empty is passed; no other entry is made or changed. For a tree whose lists hold no list
  these are all the occurrences of the key in the nested dictionaries and lists.
\<close>

theorem get_all_keys_with_counts_reached:
  "(\<exists>counts.
      get_all_keys_with_counts (PyDict item) keys_count label = Inr counts \<and>
      (\<forall>key. map_of counts key =
         add_count
           (if (case label of
                  None \<Rightarrow> key \<in> {''function'', ''arguments'', ''expression'', ''range'',
                                 ''reference'', ''constant'', ''operator''}
                | Some l \<Rightarrow>
                    if l \<noteq> [] then key = l
                    else key \<in> {''function'', ''arguments'', ''expression'', ''range'',
                                 ''reference'', ''constant'', ''operator''})
            then reached key (PyDict item) else 0)
           (map_of (case keys_count of None \<Rightarrow> [] | Some kc \<Rightarrow> kc) key))) \<and>
   (lists_of_nodes (PyDict item) \<longrightarrow>
      (\<forall>key. reached key (PyDict item) = occurrences key (PyDict item)))"
proof (intro conjI impI allI)
  let ?kc = "case keys_count of None \<Rightarrow> [] | Some kc \<Rightarrow> kc"
  let ?counts = "count_keys (acceptable_keys label) item ?kc"
  have c: "?counts = count_value (acceptable_keys label) (PyDict item) ?kc"
    by (simp add: count_value_def)
  have a: "key \<in> acceptable_keys label \<longleftrightarrow>
      (case label of
         None \<Rightarrow> key \<in> {''function'', ''arguments'', ''expression'', ''range'',
                        ''reference'', ''constant'', ''operator''}
       | Some l \<Rightarrow>
           if l \<noteq> [] then key = l
           else key \<in> {''function'', ''arguments'', ''expression'', ''range'',
                        ''reference'', ''constant'', ''operator''})" for key
    by (simp add: acceptable_keys_def split: option.splits)
  have "map_of ?counts key =
      add_count (if key \<in> acceptable_keys label then reached key (PyDict item) else 0)
        (map_of ?kc key)" for key
    unfolding c by (rule count_value_reached)
  then show "\<exists>counts.
      get_all_keys_with_counts (PyDict item) keys_count label = Inr counts \<and>
      (\<forall>key. map_of counts key =
         add_count
           (if (case label of
                  None \<Rightarrow> key \<in> {''function'', ''arguments'', ''expression'', ''range'',
                                 ''reference'', ''constant'', ''operator''}
                | Some l \<Rightarrow>
                    if l \<noteq> [] then key = l
                    else key \<in> {''function'', ''arguments'', ''expression'', ''range'',
                                 ''reference'', ''constant'', ''operator''})
            then reached key (PyDict item) else 0)
           (map_of ?kc key))"
    unfolding a by (simp add: get_all_keys_with_counts_def)
next
  fix key
  assume "lists_of_nodes (PyDict item)"
  then show "reached key (PyDict item) = occurrences key (PyDict item)"
    by (rule reached_occurrences)
qed

text \<open>A function node over a range node and a Reference node, counted without a label and
  then with the label \<^verbatim>\<open>reference\<close> on top of earlier counts.\<close>

theorem get_all_keys_with_counts_reached_witness:
  "(\<exists>counts.
      get_all_keys_with_counts
        (PyDict [(''function'', PyStr ''SUM(A1:B2, C3)''),
                 (''components'',
                    PyDict [(''name'', PyStr ''SUM''),
                            (''arguments'',
                               PyList [PyDict [(''range'', PyStr ''A1:B2''),
                                               (''components'',
                                                  PyDict [(''start'', PyDict [(''reference'', PyStr ''A1'')]),
                                                          (''end'', PyDict [(''reference'', PyStr ''B2'')])])],
                                       PyDict [(''reference'', PyStr ''C3'')]])])])
        None None = Inr counts \<and>
      map_of counts ''function'' = Some 1 \<and> map_of counts ''arguments'' = Some 1 \<and>
      map_of counts ''range'' = Some 1 \<and> map_of counts ''reference'' = Some 3 \<and>
      map_of counts ''operator'' = None \<and> map_of counts ''components'' = None) \<and>
   (\<exists>counts.
      get_all_keys_with_counts
        (PyDict [(''function'', PyStr ''SUM(A1:B2, C3)''),
                 (''components'',
                    PyDict [(''name'', PyStr ''SUM''),
                            (''arguments'',
                               PyList [PyDict [(''range'', PyStr ''A1:B2''),
                                               (''components'',
                                                  PyDict [(''start'', PyDict [(''reference'', PyStr ''A1'')]),
                                                          (''end'', PyDict [(''reference'', PyStr ''B2'')])])],
                                       PyDict [(''reference'', PyStr ''C3'')]])])])
        (Some [(''reference'', 2)]) (Some ''reference'') = Inr counts \<and>
      map_of counts ''reference'' = Some 5 \<and> map_of counts ''function'' = None \<and>
      map_of counts ''range'' = None) \<and>
   lists_of_nodes
     (PyDict [(''function'', PyStr ''SUM(A1:B2, C3)''),
                 (''components'',
                    PyDict [(''name'', PyStr ''SUM''),
                            (''arguments'',
                               PyList [PyDict [(''range'', PyStr ''A1:B2''),
                                               (''components'',
                                                  PyDict [(''start'', PyDict [(''reference'', PyStr ''A1'')]),
                                                          (''end'', PyDict [(''reference'', PyStr ''B2'')])])],
                                       PyDict [(''reference'', PyStr ''C3'')]])])]) \<and>
   occurrences ''reference''
     (PyDict [(''function'', PyStr ''SUM(A1:B2, C3)''),
                 (''components'',
                    PyDict [(''name'', PyStr ''SUM''),
                            (''arguments'',
                               PyList [PyDict [(''range'', PyStr ''A1:B2''),
                                               (''components'',
                                                  PyDict [(''start'', PyDict [(''reference'', PyStr ''A1'')]),
                                                          (''end'', PyDict [(''reference'', PyStr ''B2'')])])],
                                       PyDict [(''reference'', PyStr ''C3'')]])])]) = 3"
proof -
  let ?item = "[(''function'', PyStr ''SUM(A1:B2, C3)''),
                 (''components'',
                    PyDict [(''name'', PyStr ''SUM''),
                            (''arguments'',
                               PyList [PyDict [(''range'', PyStr ''A1:B2''),
                                               (''components'',
                                                  PyDict [(''start'', PyDict [(''reference'', PyStr ''A1'')]),
                                                          (''end'', PyDict [(''reference'', PyStr ''B2'')])])],
                                       PyDict [(''reference'', PyStr ''C3'')]])])]"
  show ?thesis
    using get_all_keys_with_counts_reached [where item = ?item and keys_count = None and label = None]
      get_all_keys_with_counts_reached [where item = ?item and keys_count = "Some [(''reference'', 2)]"
        and label = "Some ''reference''"]
    by (auto simp: add_count_def)
qed

text \<open>
  C10 as stated counts every occurrence across the nested lists and is pure. A dictionary
  in a list that is itself an element of a list is not counted, and a dictionary passed as
  \<^verbatim>\<open>keys_count\<close> comes back with its counts changed.
\<close>

theorem get_all_keys_with_counts_counterexample:
  "get_all_keys_with_counts
     (PyDict [(''components'', PyList [PyList [PyDict [(''function'', PyStr ''SUM()'')]]])])
     None None = Inr [] \<and>
   occurrences ''function''
     (PyDict [(''components'', PyList [PyList [PyDict [(''function'', PyStr ''SUM()'')]]])]) = 1 \<and>
   get_all_keys_with_counts (PyDict [(''operator'', PyStr ''+'')]) (Some [(''operator'', 5)]) None =
     Inr [(''operator'', 6)]"
  by (simp add: get_all_keys_with_counts_def count_keys_fold count_value_simps acceptable_keys_def
      keys_count_get_def)

text \<open>With the recognizers of the spec, every list in a tree that \<^verbatim>\<open>parse_expression\<close>
  builds from a text holds nodes and no list.\<close>

lemma map_eq_map_Inr:
  "map f xs = map Inr ys \<Longrightarrow> list_all (\<lambda>y. \<exists>a. f a = Inr y) ys"
  by (induction ys arbitrary: xs) auto

lemma parse_expression_spec_env_lists_of_nodes:
  "parse_expression spec_env depth (PyStr s) = Inr t \<Longrightarrow>
   lists_of_nodes t \<and> \<not> isinstance_list t"
proof (induction depth arbitrary: s t)
  case 0
  then show ?case by simp
next
  case (Suc depth)
  let ?e = "strip s"
  have parts: "list_all (\<lambda>x. \<not> isinstance_list x \<and> lists_of_nodes x) ys"
    if "collect (map (\<lambda>a. parse_expression spec_env depth (PyStr a)) xs) = Inr ys" for xs ys
  proof -
    from that have "map (\<lambda>a. parse_expression spec_env depth (PyStr a)) xs = map Inr ys"
      by (simp add: collect_eq_Inr)
    then have "list_all (\<lambda>y. \<exists>a. parse_expression spec_env depth (PyStr a) = Inr y) ys"
      by (rule map_eq_map_Inr)
    with Suc.IH show ?thesis by (auto simp: list_all_iff)
  qed
  show ?case
  proof (cases "is_function_string spec_env ?e")
    case True
    with Suc.prems obtain args where
      "collect (map (\<lambda>a. parse_expression spec_env depth (PyStr a)) (Function_args spec_env ?e)) =
         Inr args"
      and "t = PyDict [(''function'', PyStr (Function_str spec_env ?e)),
                      (''components'',
                         PyDict [(''name'', PyStr (Function_name spec_env ?e)),
                                 (''arguments'', PyList args)])]"
      by (auto simp: Let_def bind_def split: sum.splits)
    with parts show ?thesis by simp
  next
    case nf: False
    show ?thesis
    proof (cases "is_valid_range spec_env ?e")
      case True
      with nf Suc.prems have "t = spec_Range_to_dict ?e"
        by (simp add: Let_def spec_env_def)
      then show ?thesis
        by (simp add: spec_Range_to_dict_def Range_node_def Let_def
            Reference_to_dict_lists_of_nodes split: option.splits)
    next
      case nr: False
      show ?thesis
      proof (cases "is_valid_reference spec_env ?e")
        case True
        with nf nr Suc.prems obtain r where "t = Reference_to_dict r"
          by (auto simp: Let_def bind_def split: sum.splits)
        then show ?thesis by (simp add: Reference_to_dict_lists_of_nodes)
      next
        case nref: False
        show ?thesis
        proof (cases "is_valid_constant spec_env ?e")
          case True
          with nf nr nref Suc.prems have "t = spec_Constant_to_dict ?e"
            by (simp add: Let_def spec_env_def)
          then show ?thesis by (simp add: spec_Constant_to_dict_def)
        next
          case nc: False
          show ?thesis
          proof (cases "is_valid_expression spec_env ?e")
            case True
            with nf nr nref nc Suc.prems obtain ps where
              "collect (map (\<lambda>a. parse_expression spec_env depth (PyStr a))
                  (Expression_expression spec_env ?e)) = Inr ps"
              and "t = PyDict [(''expression'', PyStr (Expression_str spec_env ?e)),
                              (''components'', PyList ps)]"
              by (auto simp: Let_def bind_def split: sum.splits)
            with parts show ?thesis by simp
          next
            case False
            with nf nr nref nc Suc.prems show ?thesis
              by (auto simp: Let_def split: if_splits)
          qed
        qed
      qed
    qed
  qed
qed

end
